theory Spec2Isabelle
  imports Complex_Main
begin

section \<open>Time\<close>

text \<open>
  Python's \<^verbatim>\<open>datetime\<close> has microsecond resolution. An aware UTC datetime is the
  number of microseconds since 1970-01-01T00:00:00Z, a \<^verbatim>\<open>date\<close> is the number of days
  since 1970-01-01 and a \<^verbatim>\<open>time\<close> of day is the number of microseconds since
  midnight. All three are unbounded integers here (Python raises OverflowError
  beyond the year 9999; that bound is not part of the model).
\<close>

type_synonym instant = int
type_synonym date = int
type_synonym time_of_day = int

definition timedelta_minutes :: "int \<Rightarrow> int" where
  "timedelta_minutes m = m * 60000000"

definition timedelta_days :: "int \<Rightarrow> int" where
  "timedelta_days d = d * 86400000000"

definition combine :: "date \<Rightarrow> time_of_day \<Rightarrow> instant" where
  "combine d t = d * 86400000000 + t"

text \<open>\<^verbatim>\<open>date.weekday()\<close>: Monday is 0; 1970-01-01 was a Thursday.\<close>

definition weekday :: "date \<Rightarrow> int" where
  "weekday d = (d + 3) mod 7"

definition hour_of :: "instant \<Rightarrow> int" where
  "hour_of t = (t mod 86400000000) div 3600000000"

definition SLOT_INCREMENT_MINUTES :: int where
  "SLOT_INCREMENT_MINUTES = 15"

definition MAX_BOOKING_DAYS_AHEAD :: int where
  "MAX_BOOKING_DAYS_AHEAD = 90"

section \<open>Data model (backend/models.py)\<close>

datatype AppointmentStatus = SCHEDULED | CONFIRMED | COMPLETED | CANCELLED | NO_SHOW

text \<open>
  The status column is a non-native enum: the stored text is the member's name.
  The names are upper case already, so \<^verbatim>\<open>s.name.upper()\<close> and SQL
  \<^verbatim>\<open>upper(status)\<close> are the name itself.
\<close>

fun status_name :: "AppointmentStatus \<Rightarrow> string" where
  "status_name SCHEDULED = ''SCHEDULED''"
| "status_name CONFIRMED = ''CONFIRMED''"
| "status_name COMPLETED = ''COMPLETED''"
| "status_name CANCELLED = ''CANCELLED''"
| "status_name NO_SHOW = ''NO_SHOW''"

definition status_names :: "AppointmentStatus list \<Rightarrow> string list" where
  "status_names statuses = map status_name statuses"

record Hospital =
  hosp_id :: int

record Doctor =
  doc_id :: int
  consultation_duration :: "int option"

record Patient =
  pat_id :: int
  date_of_birth :: "date option"

record DoctorAvailability =
  avail_doctor_id :: int
  day_of_week :: int
  start_time :: time_of_day
  end_time :: time_of_day
  is_available :: bool

record Appointment =
  appt_id :: int
  appt_patient_id :: int
  appt_doctor_id :: int
  appt_hospital_id :: int
  appointment_datetime :: instant
  duration_minutes :: int
  status :: AppointmentStatus
  no_show_probability :: real
  reason :: "string option"
  updated_at :: "instant option"
  cancelled_at :: "instant option"

text \<open>The tables the scheduling service reads and writes, in insertion order.\<close>

record database =
  hospitals :: "Hospital list"
  doctors :: "Doctor list"
  patients :: "Patient list"
  doctor_availability :: "DoctorAvailability list"
  appointments :: "Appointment list"

section \<open>Slot finder (backend/services/scheduling.py, find_available_slots)\<close>

text \<open>
  The \<^verbatim>\<open>while\<close> loop over one availability window. \<^verbatim>\<open>slots\<close> is the Python set
  that the loop adds to. The loop ends for every consultation length, since
  \<^verbatim>\<open>current\<close> grows by 15 minutes in each round.
\<close>

function slot_loop ::
  "instant \<Rightarrow> instant \<Rightarrow> int \<Rightarrow> (instant \<times> instant) list \<Rightarrow> instant set \<Rightarrow> instant set"
where
  "slot_loop current end_dt consultation_minutes busy slots =
     (if current + timedelta_minutes consultation_minutes \<le> end_dt then
        (let slot_end = current + timedelta_minutes consultation_minutes;
             conflict = list_ex (\<lambda>(busy_start, busy_end).
                          current < busy_end \<and> slot_end > busy_start) busy
         in slot_loop (current + timedelta_minutes SLOT_INCREMENT_MINUTES) end_dt
              consultation_minutes busy
              (if \<not> conflict then insert current slots else slots))
      else slots)"
  by pat_completeness auto
termination
  by (relation "measure (\<lambda>(current, end_dt, consultation_minutes, busy, slots).
        nat (end_dt - current - timedelta_minutes consultation_minutes + 1))")
     (auto simp: timedelta_minutes_def SLOT_INCREMENT_MINUTES_def)

declare slot_loop.simps [simp del]

text \<open>
  \<open>date\<close> is the argument after \<^verbatim>\<open>_ensure_date\<close> (a date, the date of a datetime, or
  the date a string parses to). The function has no branch that rejects an argument.
\<close>

definition find_available_slots :: "database \<Rightarrow> int \<Rightarrow> date \<Rightarrow> int \<Rightarrow> instant list" where
  "find_available_slots db doctor_id date consultation_minutes =
     (let wd = weekday date;
          availability_rows = filter (\<lambda>r. avail_doctor_id r = doctor_id \<and>
              day_of_week r = wd \<and> is_available r) (doctor_availability db)
      in if availability_rows = [] then []
         else
           (let start_of_day = combine date 0;
                next_day = start_of_day + timedelta_days 1;
                active_status = status_names [SCHEDULED, CONFIRMED];
                existing = filter (\<lambda>a. appt_doctor_id a = doctor_id \<and>
                    appointment_datetime a \<ge> start_of_day \<and>
                    appointment_datetime a < next_day \<and>
                    status_name (status a) \<in> set active_status) (appointments db);
                busy = map (\<lambda>appt. (appointment_datetime appt,
                    appointment_datetime appt + timedelta_minutes (duration_minutes appt)))
                    existing;
                slots = fold (\<lambda>availability slots.
                    slot_loop (combine date (start_time availability))
                      (combine date (end_time availability)) consultation_minutes busy slots)
                    availability_rows {}
            in sorted_list_of_set slots))"

section \<open>No-show predictor (backend/services/ml_model.py)\<close>

datatype py_exception =
  ValueError string | TypeError | IntegrityError | OtherException

text \<open>
  A Python value as \<^verbatim>\<open>float()\<close> sees it: a number, or \<^verbatim>\<open>None\<close>, on which
  \<^verbatim>\<open>float()\<close> raises TypeError. Python floats are modelled as reals.
\<close>

datatype pyval = PyNum real | PyNone

fun py_float :: "pyval \<Rightarrow> py_exception + real" where
  "py_float (PyNum x) = Inr x"
| "py_float PyNone = Inl TypeError"

text \<open>\<^verbatim>\<open>[float(v) for v in vs]\<close>: the first conversion that raises ends the comprehension.\<close>

fun float_all :: "pyval list \<Rightarrow> py_exception + real list" where
  "float_all [] = Inr []"
| "float_all (v # vs) =
     (case py_float v of
        Inl e \<Rightarrow> Inl e
      | Inr x \<Rightarrow> (case float_all vs of Inl e \<Rightarrow> Inl e | Inr xs \<Rightarrow> Inr (x # xs)))"

text \<open>\<^verbatim>\<open>round(x, 4)\<close>: to the nearest multiple of 1/10000, ties to even.\<close>

definition py_round4 :: "real \<Rightarrow> real" where
  "py_round4 x =
     (let y = x * 10000; f = \<lfloor>y\<rfloor>; d = y - of_int f;
          n = (if d < 1/2 then f else if d > 1/2 then f + 1
               else if even f then f else f + 1)
      in of_int n / 10000)"

text \<open>
  The wrapped model is any object. \<open>truthy\<close> is its truth value (an object is true
  unless its class says otherwise). \<^verbatim>\<open>hasattr(model, "predict_proba")\<close> is whether the
  attribute is \<open>Some\<close>; the function is the outcome of the whole scoring expression
  \<^verbatim>\<open>float(model.predict_proba(X)[0][1])\<close>, respectively \<^verbatim>\<open>float(model.predict(X)[0])\<close>:
  its value, or the exception raised by the call, the indexing or the conversion.
\<close>

record model_obj =
  truthy :: bool
  predict_proba_attr :: "(real list list \<Rightarrow> py_exception + real) option"
  predict_attr :: "(real list list \<Rightarrow> py_exception + real) option"

record NoShowPredictor =
  model :: "model_obj option"

record prediction =
  probability :: real
  label :: int

definition ordered_keys :: "string list" where
  "ordered_keys = [''past_no_shows'', ''lead_time_days'', ''time_of_day_bucket'',
     ''day_of_week'', ''chronic_conditions_flag'', ''doctor_consultation_duration'',
     ''recent_no_shows'']"

text \<open>
  The \<^verbatim>\<open>if\<close>/\<^verbatim>\<open>elif\<close>/\<^verbatim>\<open>else\<close> chain of \<^verbatim>\<open>predict\<close> that computes \<^verbatim>\<open>proba\<close>. Both
  tests start with \<^verbatim>\<open>self.model and\<close>: \<^verbatim>\<open>None\<close> and a falsy object go to the
  \<^verbatim>\<open>else\<close> branch.
\<close>

definition model_score :: "NoShowPredictor \<Rightarrow> real list list \<Rightarrow> py_exception + real" where
  "model_score self X =
     (case model self of
        None \<Rightarrow> Inr (1/10)
      | Some m \<Rightarrow>
          if truthy m \<and> predict_proba_attr m \<noteq> None then
            (case predict_proba_attr m of Some f \<Rightarrow> f X | None \<Rightarrow> Inr (1/10))
          else if truthy m \<and> predict_attr m \<noteq> None then
            (case predict_attr m of Some g \<Rightarrow> g X | None \<Rightarrow> Inr (1/10))
          else Inr (1/10))"

text \<open>The body of the \<^verbatim>\<open>try\<close> block of \<^verbatim>\<open>NoShowPredictor.predict\<close>.\<close>

definition predict_try ::
  "NoShowPredictor \<Rightarrow> (string \<rightharpoonup> pyval) \<Rightarrow> py_exception + prediction" where
  "predict_try self features =
     (case float_all (map (\<lambda>k. case features k of None \<Rightarrow> PyNum 0 | Some v \<Rightarrow> v)
                        ordered_keys) of
        Inl e \<Rightarrow> Inl e
      | Inr row \<Rightarrow>
          (let X = [row]
           in case model_score self X of
                Inl e \<Rightarrow> Inl e
              | Inr proba \<Rightarrow>
                  Inr \<lparr>probability = py_round4 proba,
                       label = (if proba \<ge> 1/2 then 1 else 0)\<rparr>))"

text \<open>
  \<^verbatim>\<open>NoShowPredictor.predict\<close>: the \<^verbatim>\<open>try\<close> block with its \<^verbatim>\<open>except Exception\<close>
  handler. The result type keeps the exception branch, so that "never raises" is a
  statement about the function.
\<close>

definition predict ::
  "NoShowPredictor \<Rightarrow> (string \<rightharpoonup> pyval) \<Rightarrow> py_exception + prediction" where
  "predict self features =
     (case predict_try self features of
        Inl e \<Rightarrow> Inr \<lparr>probability = 0, label = 0\<rparr>
      | Inr r \<Rightarrow> Inr r)"

definition create_dummy_model :: model_obj where
  "create_dummy_model =
     \<lparr>truthy = True, predict_proba_attr = Some (\<lambda>X. Inr (1/10)),
      predict_attr = Some (\<lambda>X. Inr 0)\<rparr>"

text \<open>
  \<^verbatim>\<open>load_model\<close> reads the process-wide singleton and, when it is unset, the model
  file: missing, unreadable (\<^verbatim>\<open>pickle.load\<close> raises, which is caught) or holding a
  model. It returns the predictor, which is also what the singleton is set to.
\<close>

datatype model_file = FileMissing | FileUnreadable | FileModel model_obj

definition load_model :: "NoShowPredictor option \<Rightarrow> model_file \<Rightarrow> NoShowPredictor" where
  "load_model singleton file =
     (case singleton of
        Some p \<Rightarrow> p
      | None \<Rightarrow>
          (case file of
             FileMissing \<Rightarrow> \<lparr>model = Some create_dummy_model\<rparr>
           | FileUnreadable \<Rightarrow> \<lparr>model = Some create_dummy_model\<rparr>
           | FileModel m \<Rightarrow> \<lparr>model = Some m\<rparr>))"

definition get_predictor :: "NoShowPredictor option \<Rightarrow> model_file \<Rightarrow> NoShowPredictor" where
  "get_predictor singleton file = load_model singleton file"

text \<open>
  \<^verbatim>\<open>build_features\<close> on a Patient row and a Doctor row. The Patient class has no
  \<^verbatim>\<open>medical_history\<close> and no \<^verbatim>\<open>past_no_shows\<close> attribute, so \<^verbatim>\<open>getattr\<close> yields its
  defaults; the patient's age is computed and never used. \<^verbatim>\<open>consultation_duration\<close> is
  a nullable column: \<^verbatim>\<open>float(None)\<close> raises TypeError.
\<close>

definition build_features ::
  "Patient \<Rightarrow> Doctor \<Rightarrow> instant \<Rightarrow> instant \<Rightarrow> py_exception + (string \<rightharpoonup> pyval)" where
  "build_features patient doctor appointment_dt now =
     (let lead_time_seconds = max (real_of_int (appointment_dt - now) / 1000000) 0;
          lead_time_days = lead_time_seconds / 86400;
          hour = hour_of appointment_dt;
          tod = (if hour < 9 then 0 else if hour < 12 then 1 else if hour < 17 then 2 else 3);
          chronic_flag = 0;
          past_no_shows = 0
      in case py_float (case consultation_duration doctor of
                          None \<Rightarrow> PyNone | Some n \<Rightarrow> PyNum (real_of_int n)) of
           Inl e \<Rightarrow> Inl e
         | Inr duration \<Rightarrow>
             Inr (map_of
               [(''past_no_shows'', PyNum past_no_shows),
                (''lead_time_days'', PyNum lead_time_days),
                (''time_of_day_bucket'', PyNum tod),
                (''day_of_week'', PyNum (real_of_int (weekday (appointment_dt div 86400000000)))),
                (''chronic_conditions_flag'', PyNum chronic_flag),
                (''doctor_consultation_duration'', PyNum duration),
                (''recent_no_shows'', PyNum 0)]))"

section \<open>Booking (backend/services/scheduling.py, book_appointment)\<close>

text \<open>
  What a call reads from outside the database: the clock in \<^verbatim>\<open>book_appointment\<close> and
  the later one in \<^verbatim>\<open>build_features\<close>, the predictor singleton and the model file, and
  whether the storage engine fails at flush or commit for a reason other than a
  constraint (a failure of the engine during the lookups is not modelled).
\<close>

record environment =
  clock_booking :: instant
  clock_features :: instant
  singleton :: "NoShowPredictor option"
  model_path_file :: model_file
  storage_fault :: bool

text \<open>
  The \<^verbatim>\<open>appointment_datetime\<close> argument: \<^verbatim>\<open>None\<close>; a datetime, or the ISO string
  that parses to it, given by its wall-clock reading (microseconds since 1970-01-01
  00:00 on its own clock) and its UTC offset in microseconds, \<open>None\<close> when it is
  naive; a string that \<^verbatim>\<open>datetime.fromisoformat\<close> rejects, given by the message of the
  ValueError raised; or a value of another type (the route passes a \<^verbatim>\<open>date\<close> when
  only a preferred date is given).
\<close>

datatype dt_input = DtNone | DtDatetime int "int option" | DtMalformed string | DtOther

text \<open>
  \<^verbatim>\<open>replace(microsecond=0)\<close> clears the microsecond field of the wall-clock reading;
  only then is a naive value read as UTC and an aware one converted to UTC.
\<close>

fun normalize_datetime_input :: "dt_input \<Rightarrow> py_exception + instant" where
  "normalize_datetime_input DtNone = Inl (ValueError ''appointment_datetime is required'')"
| "normalize_datetime_input (DtDatetime wall utcoffset) =
     (let dt = wall - wall mod 1000000
      in case utcoffset of None \<Rightarrow> Inr dt | Some off \<Rightarrow> Inr (dt - off))"
| "normalize_datetime_input (DtMalformed message) = Inl (ValueError message)"
| "normalize_datetime_input DtOther = Inl (ValueError ''Unsupported datetime input type'')"

fun exception_str :: "py_exception \<Rightarrow> string" where
  "exception_str (ValueError m) = m"
| "exception_str TypeError = ''TypeError''"
| "exception_str IntegrityError = ''IntegrityError''"
| "exception_str OtherException = ''Exception''"

datatype booking_result = BookingSuccess int real | BookingFailure string

text \<open>The \<^verbatim>\<open>try\<close> block commented "ML Prediction".\<close>

definition ml_prediction_try ::
  "environment \<Rightarrow> Patient \<Rightarrow> Doctor \<Rightarrow> instant \<Rightarrow> py_exception + real" where
  "ml_prediction_try env patient doctor appointment_dt =
     (case build_features patient doctor appointment_dt (clock_features env) of
        Inl e \<Rightarrow> Inl e
      | Inr features \<Rightarrow>
          (let predictor = get_predictor (singleton env) (model_path_file env)
           in case predict predictor features of
                Inl e \<Rightarrow> Inl e
              | Inr prediction \<Rightarrow> py_float (PyNum (probability prediction))))"

text \<open>The constraint \<^verbatim>\<open>uix_doctor_datetime\<close> on (doctor_id, appointment_datetime).\<close>

definition violates_uix_doctor_datetime :: "database \<Rightarrow> int \<Rightarrow> instant \<Rightarrow> bool" where
  "violates_uix_doctor_datetime db doctor_id dt =
     list_ex (\<lambda>a. appt_doctor_id a = doctor_id \<and> appointment_datetime a = dt) (appointments db)"

definition next_appointment_id :: "database \<Rightarrow> int" where
  "next_appointment_id db = fold max (map appt_id (appointments db)) 0 + 1"

text \<open>
  \<^verbatim>\<open>session.add\<close>, \<^verbatim>\<open>session.flush\<close> and \<^verbatim>\<open>session.commit\<close>: the insert gets its primary
  key (the next integer after the largest one stored), or the statement raises and
  the rollback leaves nothing written.
\<close>

definition flush_commit ::
  "environment \<Rightarrow> database \<Rightarrow> Appointment \<Rightarrow> py_exception + (database \<times> int)" where
  "flush_commit env db appointment =
     (if storage_fault env then Inl OtherException
      else if violates_uix_doctor_datetime db (appt_doctor_id appointment)
                (appointment_datetime appointment) then Inl IntegrityError
      else
        (let new_id = next_appointment_id db
         in Inr (db\<lparr>appointments := appointments db @ [appointment\<lparr>appt_id := new_id\<rparr>]\<rparr>,
                 new_id)))"

definition book_appointment ::
  "environment \<Rightarrow> database \<Rightarrow> int \<Rightarrow> int \<Rightarrow> int \<Rightarrow> dt_input \<Rightarrow> int \<Rightarrow> string option
     \<Rightarrow> database \<times> booking_result" where
  "book_appointment env db patient_id doctor_id hospital_id appointment_datetime'
       duration_minutes' reason' =
     (case normalize_datetime_input appointment_datetime' of
        Inl e \<Rightarrow> (db, BookingFailure (exception_str e))
      | Inr appointment_dt \<Rightarrow>
          (let now = clock_booking env
           in if appointment_dt \<le> now then
                (db, BookingFailure ''Cannot book in the past'')
              else if appointment_dt > now + timedelta_days MAX_BOOKING_DAYS_AHEAD then
                (db, BookingFailure ''Booking too far in future'')
              else
                (case find (\<lambda>p. pat_id p = patient_id) (patients db) of
                   None \<Rightarrow> (db, BookingFailure ''Patient not found'')
                 | Some patient \<Rightarrow>
                (case find (\<lambda>d. doc_id d = doctor_id) (doctors db) of
                   None \<Rightarrow> (db, BookingFailure ''Doctor not found'')
                 | Some doctor \<Rightarrow>
                (case find (\<lambda>h. hosp_id h = hospital_id) (hospitals db) of
                   None \<Rightarrow> (db, BookingFailure ''Hospital not found'')
                 | Some hospital \<Rightarrow>
                     (let probability =
                            (case ml_prediction_try env patient doctor appointment_dt of
                               Inl e \<Rightarrow> 1/2
                             | Inr p \<Rightarrow> p);
                          appointment =
                            \<lparr>appt_id = 0, appt_patient_id = patient_id,
                             appt_doctor_id = doctor_id, appt_hospital_id = hospital_id,
                             appointment_datetime = appointment_dt,
                             duration_minutes = duration_minutes',
                             status = SCHEDULED, no_show_probability = probability,
                             reason = reason', updated_at = None, cancelled_at = None\<rparr>
                      in case flush_commit env db appointment of
                           Inr (db', appointment_id) \<Rightarrow>
                             (db', BookingSuccess appointment_id probability)
                         | Inl IntegrityError \<Rightarrow>
                             (db, BookingFailure ''Slot already booked'')
                         | Inl _ \<Rightarrow>
                             (db, BookingFailure ''Internal server error'')))))))"

section \<open>Cancellation (backend/services/scheduling.py, cancel_appointment)\<close>

datatype cancel_result = CancelSuccess string | CancelFailure string

text \<open>
  \<open>now\<close> is the clock read by the call. The commit writes the changed row back by its
  primary key.
\<close>

definition cancel_appointment :: "instant \<Rightarrow> database \<Rightarrow> int \<Rightarrow> database \<times> cancel_result" where
  "cancel_appointment now db appointment_id =
     (case find (\<lambda>a. appt_id a = appointment_id) (appointments db) of
        None \<Rightarrow> (db, CancelFailure ''Appointment not found'')
      | Some appt \<Rightarrow>
          if status appt \<in> {CANCELLED, COMPLETED} then
            (db, CancelFailure ''Cannot cancel this appointment'')
          else
            (db\<lparr>appointments :=
                 map (\<lambda>a. if appt_id a = appointment_id
                           then a\<lparr>status := CANCELLED, updated_at := Some now\<rparr> else a)
                   (appointments db)\<rparr>,
             CancelSuccess ''Appointment cancelled''))"

section \<open>The specification's words for the slot finder\<close>

text \<open>
  The overlap test of the specification between a candidate of the given length and
  the busy intervals, and the candidates of one window: every start reached from the
  window's start in strides of 15 minutes that still fits and conflicts with nothing.
\<close>

definition conflicts :: "instant \<Rightarrow> int \<Rightarrow> (instant \<times> instant) list \<Rightarrow> bool" where
  "conflicts c cm busy =
     (\<exists>(busy_start, busy_end) \<in> set busy. c < busy_end \<and> c + timedelta_minutes cm > busy_start)"

definition window_candidates ::
  "instant \<Rightarrow> instant \<Rightarrow> int \<Rightarrow> (instant \<times> instant) list \<Rightarrow> instant set" where
  "window_candidates s e cm busy =
     {c. (\<exists>k::nat. c = s + int k * timedelta_minutes SLOT_INCREMENT_MINUTES) \<and>
         c + timedelta_minutes cm \<le> e \<and> \<not> conflicts c cm busy}"

definition spec_enabled_windows :: "database \<Rightarrow> int \<Rightarrow> date \<Rightarrow> DoctorAvailability list" where
  "spec_enabled_windows db doctor_id date =
     filter (\<lambda>w. avail_doctor_id w = doctor_id \<and> day_of_week w = weekday date \<and> is_available w)
       (doctor_availability db)"

definition spec_active_appointments :: "database \<Rightarrow> int \<Rightarrow> date \<Rightarrow> Appointment list" where
  "spec_active_appointments db doctor_id date =
     filter (\<lambda>a. appt_doctor_id a = doctor_id \<and> (status a = SCHEDULED \<or> status a = CONFIRMED) \<and>
         combine date 0 \<le> appointment_datetime a \<and> appointment_datetime a < combine (date + 1) 0)
       (appointments db)"

definition spec_slot_set :: "database \<Rightarrow> int \<Rightarrow> date \<Rightarrow> int \<Rightarrow> instant set" where
  "spec_slot_set db doctor_id date consultation_minutes =
     {candidate. \<exists>w \<in> set (spec_enabled_windows db doctor_id date).
        (\<exists>k::nat. candidate = combine date (start_time w) + int k * timedelta_minutes 15) \<and>
        candidate + timedelta_minutes consultation_minutes \<le> combine date (end_time w) \<and>
        (\<forall>a \<in> set (spec_active_appointments db doctor_id date).
           \<not> (candidate < appointment_datetime a + timedelta_minutes (duration_minutes a) \<and>
              candidate + timedelta_minutes consultation_minutes > appointment_datetime a))}"

section \<open>Vocabulary for statements about booking\<close>

text \<open>
  The row that \<open>book_appointment\<close> builds, the conjunction of the checks of
  \<open>book_appointment\<close> that a request must pass to reach the insert (the normalised
  start is strictly after the clock and at most 90 days ahead, and the patient, the
  doctor and the hospital are found), and the probability that the call stores.
\<close>

definition new_appointment ::
  "int \<Rightarrow> int \<Rightarrow> int \<Rightarrow> int \<Rightarrow> instant \<Rightarrow> int \<Rightarrow> real \<Rightarrow> string option \<Rightarrow> Appointment" where
  "new_appointment i patient_id doctor_id hospital_id dt dur p rsn =
     \<lparr>appt_id = i, appt_patient_id = patient_id, appt_doctor_id = doctor_id,
      appt_hospital_id = hospital_id, appointment_datetime = dt, duration_minutes = dur,
      status = SCHEDULED, no_show_probability = p, reason = rsn, updated_at = None,
      cancelled_at = None\<rparr>"

definition passes_validation ::
  "environment \<Rightarrow> database \<Rightarrow> int \<Rightarrow> int \<Rightarrow> int \<Rightarrow> dt_input \<Rightarrow> instant \<Rightarrow> Patient \<Rightarrow> Doctor \<Rightarrow> bool" where
  "passes_validation env db patient_id doctor_id hospital_id inp dt patient doctor \<longleftrightarrow>
     normalize_datetime_input inp = Inr dt \<and>
     clock_booking env < dt \<and>
     dt \<le> clock_booking env + timedelta_days 90 \<and>
     find (\<lambda>p. pat_id p = patient_id) (patients db) = Some patient \<and>
     find (\<lambda>d. doc_id d = doctor_id) (doctors db) = Some doctor \<and>
     find (\<lambda>h. hosp_id h = hospital_id) (hospitals db) \<noteq> None"

definition stored_probability :: "environment \<Rightarrow> Patient \<Rightarrow> Doctor \<Rightarrow> instant \<Rightarrow> real" where
  "stored_probability env patient doctor dt =
     (case ml_prediction_try env patient doctor dt of Inl e \<Rightarrow> 1/2 | Inr p \<Rightarrow> p)"

section \<open>Example data\<close>

text \<open>
  The seed data of the integration tests: hospital 1, doctor 1, patient 11, and one
  enabled window on Mondays from 09:00 to 17:00. Day 20528 is Monday 2026-03-16.
\<close>

definition monday_window :: DoctorAvailability where
  "monday_window = \<lparr>avail_doctor_id = 1, day_of_week = 0, start_time = 32400000000,
     end_time = 61200000000, is_available = True\<rparr>"

definition seed_db :: database where
  "seed_db = \<lparr>hospitals = [\<lparr>hosp_id = 1\<rparr>],
     doctors = [\<lparr>doc_id = 1, consultation_duration = Some 30\<rparr>],
     patients = [\<lparr>pat_id = 11, date_of_birth = None\<rparr>],
     doctor_availability = [monday_window],
     appointments = []\<rparr>"

text \<open>A process with no model file, on 2026-03-10 at midnight UTC.\<close>

definition seed_env :: environment where
  "seed_env = \<lparr>clock_booking = 1773100800000000, clock_features = 1773100800000000,
     singleton = None, model_path_file = FileMissing, storage_fault = False\<rparr>"

text \<open>
  Appointment 1 of doctor 1 on Monday 2026-03-16 at 11:00, as a booking leaves it, and
  the databases that hold it as SCHEDULED, as NO_SHOW and as CANCELLED.
\<close>

definition scheduled_appt :: Appointment where
  "scheduled_appt = \<lparr>appt_id = 1, appt_patient_id = 11, appt_doctor_id = 1,
     appt_hospital_id = 1, appointment_datetime = 1773658800000000, duration_minutes = 30,
     status = SCHEDULED, no_show_probability = 1/10, reason = None, updated_at = None,
     cancelled_at = None\<rparr>"

definition booked_db :: database where
  "booked_db = seed_db\<lparr>appointments := [scheduled_appt]\<rparr>"

definition no_show_db :: database where
  "no_show_db = seed_db\<lparr>appointments := [scheduled_appt\<lparr>status := NO_SHOW\<rparr>]\<rparr>"

definition cancelled_db :: database where
  "cancelled_db = seed_db\<lparr>appointments := [scheduled_appt\<lparr>status := CANCELLED\<rparr>]\<rparr>"

text \<open>A pickled model whose \<^verbatim>\<open>predict_proba\<close> raises, and a process that loads it.\<close>

definition raising_model :: model_obj where
  "raising_model = \<lparr>truthy = True, predict_proba_attr = Some (\<lambda>X. Inl OtherException),
     predict_attr = None\<rparr>"

definition raising_env :: environment where
  "raising_env = seed_env\<lparr>model_path_file := FileModel raising_model\<rparr>"

text \<open>A doctor row whose nullable \<^verbatim>\<open>consultation_duration\<close> is NULL.\<close>

definition null_duration_db :: database where
  "null_duration_db = seed_db\<lparr>doctors := [\<lparr>doc_id = 1, consultation_duration = None\<rparr>]\<rparr>"

section \<open>Properties of the slot finder\<close>

lemma list_ex_conflicts:
  "list_ex (\<lambda>(bs, be). c < be \<and> c + timedelta_minutes cm > bs) busy = conflicts c cm busy"
  by (auto simp: conflicts_def list_ex_iff)

lemma window_candidates_step:
  assumes "s + timedelta_minutes cm \<le> e"
  shows "window_candidates s e cm busy =
     (if conflicts s cm busy then {} else {s}) \<union>
       window_candidates (s + timedelta_minutes SLOT_INCREMENT_MINUTES) e cm busy"
proof -
  let ?inc = "timedelta_minutes SLOT_INCREMENT_MINUTES"
  have split: "(\<exists>k::nat. c = s + int k * ?inc) \<longleftrightarrow>
       c = s \<or> (\<exists>k::nat. c = s + ?inc + int k * ?inc)" for c
  proof
    assume "\<exists>k::nat. c = s + int k * ?inc"
    then obtain k :: nat where k: "c = s + int k * ?inc" ..
    show "c = s \<or> (\<exists>k::nat. c = s + ?inc + int k * ?inc)"
    proof (cases k)
      case 0
      with k show ?thesis by simp
    next
      case (Suc j)
      with k have "c = s + ?inc + int j * ?inc" by (simp add: algebra_simps)
      then show ?thesis by blast
    qed
  next
    assume "c = s \<or> (\<exists>k::nat. c = s + ?inc + int k * ?inc)"
    then show "\<exists>k::nat. c = s + int k * ?inc"
    proof
      assume "c = s"
      then have "c = s + int 0 * ?inc" by simp
      then show ?thesis by blast
    next
      assume "\<exists>k::nat. c = s + ?inc + int k * ?inc"
      then obtain k :: nat where "c = s + ?inc + int k * ?inc" ..
      then have "c = s + int (Suc k) * ?inc" by (simp add: algebra_simps)
      then show ?thesis by blast
    qed
  qed
  show ?thesis
    using assms by (auto simp: window_candidates_def split)
qed

lemma window_candidates_empty:
  assumes "\<not> s + timedelta_minutes cm \<le> e"
  shows "window_candidates s e cm busy = {}"
proof -
  have "False" if "c \<in> window_candidates s e cm busy" for c
  proof -
    from that obtain k :: nat where
      c: "c = s + int k * timedelta_minutes SLOT_INCREMENT_MINUTES"
      and le: "c + timedelta_minutes cm \<le> e"
      by (auto simp: window_candidates_def)
    have "0 \<le> int k * timedelta_minutes SLOT_INCREMENT_MINUTES"
      by (simp add: timedelta_minutes_def SLOT_INCREMENT_MINUTES_def)
    with c le assms show False by linarith
  qed
  then show ?thesis by blast
qed

lemma slot_loop_set:
  "slot_loop s e cm busy slots = slots \<union> window_candidates s e cm busy"
proof (induction s e cm busy slots rule: slot_loop.induct)
  case (1 current end_dt consultation_minutes busy slots)
  show ?case
  proof (cases "current + timedelta_minutes consultation_minutes \<le> end_dt")
    case True
    then show ?thesis
      using "1.IH" [OF True refl refl]
      by (subst slot_loop.simps)
         (auto simp: Let_def list_ex_conflicts window_candidates_step [OF True])
  next
    case False
    then show ?thesis
      by (subst slot_loop.simps) (simp add: window_candidates_empty)
  qed
qed

lemma finite_slot_loop: "finite slots \<Longrightarrow> finite (slot_loop s e cm busy slots)"
proof (induction s e cm busy slots rule: slot_loop.induct)
  case (1 current end_dt consultation_minutes busy slots)
  show ?case
  proof (cases "current + timedelta_minutes consultation_minutes \<le> end_dt")
    case True
    then show ?thesis
      using "1.IH" [OF True refl refl] "1.prems"
      by (subst slot_loop.simps) (simp add: Let_def)
  next
    case False
    then show ?thesis
      using "1.prems" by (subst slot_loop.simps) simp
  qed
qed

lemma fold_slot_loop_set:
  "fold (\<lambda>availability slots.
      slot_loop (combine date (start_time availability)) (combine date (end_time availability))
        cm busy slots) rows slots0 =
   slots0 \<union> (\<Union>w \<in> set rows.
      window_candidates (combine date (start_time w)) (combine date (end_time w)) cm busy)"
  by (induction rows arbitrary: slots0) (auto simp: slot_loop_set)

lemma finite_fold_slot_loop:
  "finite slots0 \<Longrightarrow> finite (fold (\<lambda>availability slots.
      slot_loop (combine date (start_time availability)) (combine date (end_time availability))
        cm busy slots) rows slots0)"
  by (induction rows arbitrary: slots0) (auto simp: finite_slot_loop)

lemma active_status_iff:
  "status_name s \<in> set (status_names [SCHEDULED, CONFIRMED]) \<longleftrightarrow> s = SCHEDULED \<or> s = CONFIRMED"
  by (cases s) (simp_all add: status_names_def)

lemma existing_is_spec_active:
  "filter (\<lambda>a. appt_doctor_id a = doctor_id \<and>
       appointment_datetime a \<ge> combine date 0 \<and>
       appointment_datetime a < combine date 0 + timedelta_days 1 \<and>
       status_name (status a) \<in> set (status_names [SCHEDULED, CONFIRMED])) (appointments db)
   = spec_active_appointments db doctor_id date"
  unfolding spec_active_appointments_def active_status_iff
  by (rule filter_cong) (auto simp: combine_def timedelta_days_def)

lemma find_available_slots_unfold:
  "find_available_slots db doctor_id date cm =
     (if spec_enabled_windows db doctor_id date = [] then []
      else sorted_list_of_set (fold (\<lambda>availability slots.
         slot_loop (combine date (start_time availability)) (combine date (end_time availability))
           cm (map (\<lambda>appt. (appointment_datetime appt,
                 appointment_datetime appt + timedelta_minutes (duration_minutes appt)))
               (spec_active_appointments db doctor_id date)) slots)
         (spec_enabled_windows db doctor_id date) {}))"
  unfolding find_available_slots_def Let_def existing_is_spec_active
  by (simp add: spec_enabled_windows_def)

lemma conflicts_busy_map:
  "conflicts c cm (map (\<lambda>appt. (appointment_datetime appt,
       appointment_datetime appt + timedelta_minutes (duration_minutes appt))) appts) \<longleftrightarrow>
   (\<exists>a \<in> set appts. c < appointment_datetime a + timedelta_minutes (duration_minutes a) \<and>
        c + timedelta_minutes cm > appointment_datetime a)"
  by (auto simp: conflicts_def)

lemma find_available_slots_set:
  "set (find_available_slots db doctor_id date cm) = spec_slot_set db doctor_id date cm"
proof (cases "spec_enabled_windows db doctor_id date = []")
  case True
  then show ?thesis
    by (simp add: find_available_slots_unfold spec_slot_set_def)
next
  case False
  let ?busy = "map (\<lambda>appt. (appointment_datetime appt,
      appointment_datetime appt + timedelta_minutes (duration_minutes appt)))
      (spec_active_appointments db doctor_id date)"
  let ?slots = "fold (\<lambda>availability slots.
      slot_loop (combine date (start_time availability)) (combine date (end_time availability))
        cm ?busy slots) (spec_enabled_windows db doctor_id date) {}"
  have "finite ?slots"
    by (rule finite_fold_slot_loop) simp
  then have "set (find_available_slots db doctor_id date cm) = ?slots"
    using False by (simp add: find_available_slots_unfold)
  also have "?slots = (\<Union>w \<in> set (spec_enabled_windows db doctor_id date).
      window_candidates (combine date (start_time w)) (combine date (end_time w)) cm ?busy)"
    by (simp add: fold_slot_loop_set)
  also have "\<dots> = spec_slot_set db doctor_id date cm"
    by (auto simp: spec_slot_set_def window_candidates_def conflicts_busy_map
          SLOT_INCREMENT_MINUTES_def)
  finally show ?thesis .
qed

lemma find_available_slots_strict_sorted:
  "sorted_wrt (<) (find_available_slots db doctor_id date cm)"
  by (simp add: find_available_slots_unfold)

lemma monday_slots:
  assumes w: "spec_enabled_windows db doctor_id date = [w]"
    and s: "start_time w = 32400000000" and e: "end_time w = 61200000000"
    and none: "spec_active_appointments db doctor_id date = []"
  shows "find_available_slots db doctor_id date 30 =
     map (\<lambda>k. combine date 32400000000 + int k * timedelta_minutes 15) [0..<31]"
proof (rule sorted_distinct_set_unique)
  let ?f = "\<lambda>k. combine date 32400000000 + int k * timedelta_minutes 15"
  show "sorted (find_available_slots db doctor_id date 30)"
    using find_available_slots_strict_sorted [of db doctor_id date 30]
    by (simp add: strict_sorted_iff)
  show "distinct (find_available_slots db doctor_id date 30)"
    using find_available_slots_strict_sorted [of db doctor_id date 30]
    by (simp add: strict_sorted_iff)
  have mono: "strict_mono ?f"
    by (rule strict_monoI) (simp add: timedelta_minutes_def)
  have "sorted_wrt (<) (map ?f [0..<31])"
    unfolding sorted_wrt_map using mono
    by (auto simp: strict_mono_def intro!: sorted_wrt_mono_rel [OF _ sorted_wrt_upt])
  then show "sorted (map ?f [0..<31])" and "distinct (map ?f [0..<31])"
    by (simp_all only: strict_sorted_iff)
  have "set (find_available_slots db doctor_id date 30) = spec_slot_set db doctor_id date 30"
    by (rule find_available_slots_set)
  also have "\<dots> = {c. (\<exists>k::nat. c = ?f k) \<and> c + timedelta_minutes 30 \<le> combine date 61200000000}"
    by (simp add: spec_slot_set_def w s e none)
  also have "\<dots> = ?f ` {0..<31}"
    by (auto simp: combine_def timedelta_minutes_def)
  finally show "set (find_available_slots db doctor_id date 30) = set (map ?f [0..<31])"
    by simp
qed

text \<open>
  C3. For every doctor, date and consultation length, \<open>find_available_slots\<close> returns
  the strictly ascending (so sorted and duplicate-free) list of exactly the candidates
  of the specification: the starts reached from the start of an enabled window of
  that weekday in 15-minute strides with candidate + consultation \<open>\<le>\<close> window end, that
  overlap no SCHEDULED or CONFIRMED appointment of that doctor on that date (overlap:
  candidate < busy end and candidate + consultation > busy start). In particular, with
  one enabled window 09:00 to 17:00, no active appointment and 30 minutes, the result
  is 09:00, 09:15, ..., 16:30 (31 slots). The characterisation needs no assumption on
  the consultation length, so it holds in particular for every positive one.
\<close>

theorem find_available_slots_spec:
  "sorted_wrt (<) (find_available_slots db doctor_id date consultation_minutes) \<and>
   set (find_available_slots db doctor_id date consultation_minutes) =
     spec_slot_set db doctor_id date consultation_minutes \<and>
   (spec_enabled_windows db doctor_id date = [w] \<and> start_time w = 32400000000 \<and>
    end_time w = 61200000000 \<and> spec_active_appointments db doctor_id date = [] \<longrightarrow>
    find_available_slots db doctor_id date 30 =
      map (\<lambda>k. combine date 32400000000 + int k * timedelta_minutes 15) [0..<31])"
  using find_available_slots_strict_sorted find_available_slots_set monday_slots
  by blast

text \<open>The seed data on Monday 2026-03-16: the 31 slots from 09:00 to 16:30.\<close>

theorem find_available_slots_spec_witness:
  "spec_enabled_windows seed_db 1 20528 = [monday_window] \<and>
   start_time monday_window = 32400000000 \<and> end_time monday_window = 61200000000 \<and>
   spec_active_appointments seed_db 1 20528 = [] \<and>
   find_available_slots seed_db 1 20528 30 =
     [1773651600000000, 1773652500000000, 1773653400000000, 1773654300000000,
      1773655200000000, 1773656100000000, 1773657000000000, 1773657900000000,
      1773658800000000, 1773659700000000, 1773660600000000, 1773661500000000,
      1773662400000000, 1773663300000000, 1773664200000000, 1773665100000000,
      1773666000000000, 1773666900000000, 1773667800000000, 1773668700000000,
      1773669600000000, 1773670500000000, 1773671400000000, 1773672300000000,
      1773673200000000, 1773674100000000, 1773675000000000, 1773675900000000,
      1773676800000000, 1773677700000000, 1773678600000000] \<and>
   set (find_available_slots seed_db 1 20528 30) = spec_slot_set seed_db 1 20528 30"
proof -
  have w: "spec_enabled_windows seed_db 1 20528 = [monday_window]"
    by (simp add: spec_enabled_windows_def seed_db_def monday_window_def weekday_def)
  have s: "start_time monday_window = 32400000000" and e: "end_time monday_window = 61200000000"
    by (simp_all add: monday_window_def)
  have n: "spec_active_appointments seed_db 1 20528 = []"
    by (simp add: spec_active_appointments_def seed_db_def)
  have m: "map (\<lambda>k. combine 20528 32400000000 + int k * timedelta_minutes 15) [0..<31] =
     [1773651600000000, 1773652500000000, 1773653400000000, 1773654300000000,
      1773655200000000, 1773656100000000, 1773657000000000, 1773657900000000,
      1773658800000000, 1773659700000000, 1773660600000000, 1773661500000000,
      1773662400000000, 1773663300000000, 1773664200000000, 1773665100000000,
      1773666000000000, 1773666900000000, 1773667800000000, 1773668700000000,
      1773669600000000, 1773670500000000, 1773671400000000, 1773672300000000,
      1773673200000000, 1773674100000000, 1773675000000000, 1773675900000000,
      1773676800000000, 1773677700000000, 1773678600000000]"
    unfolding combine_def timedelta_minutes_def by code_simp
  note inst = find_available_slots_spec [of seed_db 1 20528 30 monday_window]
  from inst have A: "set (find_available_slots seed_db 1 20528 30) = spec_slot_set seed_db 1 20528 30"
    by (rule conjunct1 [OF conjunct2])
  from inst w s e n have "find_available_slots seed_db 1 20528 30 =
      map (\<lambda>k. combine 20528 32400000000 + int k * timedelta_minutes 15) [0..<31]"
    by blast
  then have C: "find_available_slots seed_db 1 20528 30 =
     [1773651600000000, 1773652500000000, 1773653400000000, 1773654300000000,
      1773655200000000, 1773656100000000, 1773657000000000, 1773657900000000,
      1773658800000000, 1773659700000000, 1773660600000000, 1773661500000000,
      1773662400000000, 1773663300000000, 1773664200000000, 1773665100000000,
      1773666000000000, 1773666900000000, 1773667800000000, 1773668700000000,
      1773669600000000, 1773670500000000, 1773671400000000, 1773672300000000,
      1773673200000000, 1773674100000000, 1773675000000000, 1773675900000000,
      1773676800000000, 1773677700000000, 1773678600000000]"
    by (simp only: m)
  from w s e n C A show ?thesis
    by (intro conjI)
qed

lemma single_window_slots:
  assumes w: "spec_enabled_windows db doctor_id date = [w]"
    and none: "spec_active_appointments db doctor_id date = []"
    and n: "\<And>k::nat. combine date (start_time w) + int k * timedelta_minutes 15 +
        timedelta_minutes cm \<le> combine date (end_time w) \<longleftrightarrow> k < n"
  shows "find_available_slots db doctor_id date cm =
     map (\<lambda>k. combine date (start_time w) + int k * timedelta_minutes 15) [0..<n]"
proof (rule sorted_distinct_set_unique)
  let ?f = "\<lambda>k. combine date (start_time w) + int k * timedelta_minutes 15"
  show "sorted (find_available_slots db doctor_id date cm)"
    using find_available_slots_strict_sorted [of db doctor_id date cm]
    by (simp add: strict_sorted_iff)
  show "distinct (find_available_slots db doctor_id date cm)"
    using find_available_slots_strict_sorted [of db doctor_id date cm]
    by (simp add: strict_sorted_iff)
  have mono: "strict_mono ?f"
    by (rule strict_monoI) (simp add: timedelta_minutes_def)
  have "sorted_wrt (<) (map ?f [0..<n])"
    unfolding sorted_wrt_map using mono
    by (auto simp: strict_mono_def intro!: sorted_wrt_mono_rel [OF _ sorted_wrt_upt])
  then show "sorted (map ?f [0..<n])" and "distinct (map ?f [0..<n])"
    by (simp_all only: strict_sorted_iff)
  have "set (find_available_slots db doctor_id date cm) = spec_slot_set db doctor_id date cm"
    by (rule find_available_slots_set)
  also have "\<dots> = {c. (\<exists>k::nat. c = ?f k) \<and> c + timedelta_minutes cm \<le> combine date (end_time w)}"
    by (simp add: spec_slot_set_def w none)
  also have "\<dots> = ?f ` {0..<n}"
  proof (rule set_eqI)
    fix c
    show "c \<in> {c. (\<exists>k::nat. c = ?f k) \<and> c + timedelta_minutes cm \<le> combine date (end_time w)}
        \<longleftrightarrow> c \<in> ?f ` {0..<n}"
    proof
      assume "c \<in> {c. (\<exists>k::nat. c = ?f k) \<and>
          c + timedelta_minutes cm \<le> combine date (end_time w)}"
      then obtain k :: nat where c: "c = ?f k"
        and le: "c + timedelta_minutes cm \<le> combine date (end_time w)"
        by blast
      from le have "?f k + timedelta_minutes cm \<le> combine date (end_time w)"
        by (simp only: c)
      then have "k < n" by (simp only: n)
      then have "k \<in> {0..<n}" by simp
      with c show "c \<in> ?f ` {0..<n}" by (rule image_eqI)
    next
      assume "c \<in> ?f ` {0..<n}"
      then obtain k where c: "c = ?f k" and k: "k \<in> {0..<n}" by (rule imageE)
      from k have "k < n" by simp
      then have "?f k + timedelta_minutes cm \<le> combine date (end_time w)"
        by (simp only: n)
      with c show "c \<in> {c. (\<exists>k::nat. c = ?f k) \<and>
          c + timedelta_minutes cm \<le> combine date (end_time w)}"
        by blast
    qed
  qed
  finally show "set (find_available_slots db doctor_id date cm) = set (map ?f [0..<n])"
    by simp
qed

lemma window_start_is_slot:
  assumes w: "w \<in> set (spec_enabled_windows db doctor_id date)"
    and fits: "combine date (start_time w) + timedelta_minutes cm \<le> combine date (end_time w)"
    and none: "spec_active_appointments db doctor_id date = []"
  shows "combine date (start_time w) \<in> set (find_available_slots db doctor_id date cm)"
proof -
  have "\<exists>k::nat. combine date (start_time w) =
      combine date (start_time w) + int k * timedelta_minutes 15"
    by (rule exI [of _ 0]) simp
  with w fits have "combine date (start_time w) \<in> spec_slot_set db doctor_id date cm"
    unfolding spec_slot_set_def none by (intro CollectI bexI [of _ w]) simp_all
  then show ?thesis by (simp only: find_available_slots_set)
qed

text \<open>
  C9 (as amended). \<open>find_available_slots\<close> does not validate the consultation length.
  For a length of zero or less it returns the slot list of the same walk: strictly
  ascending, and exactly the candidates of the specification for that length. The list
  holds the start of every enabled window whose start is not after its end when the
  doctor has no active appointment that day, so it is not empty then.
\<close>

theorem find_available_slots_nonpositive:
  assumes "consultation_minutes \<le> 0"
  shows "sorted_wrt (<) (find_available_slots db doctor_id date consultation_minutes) \<and>
     set (find_available_slots db doctor_id date consultation_minutes) =
       spec_slot_set db doctor_id date consultation_minutes \<and>
     (\<forall>w \<in> set (spec_enabled_windows db doctor_id date).
        start_time w \<le> end_time w \<and> spec_active_appointments db doctor_id date = [] \<longrightarrow>
        combine date (start_time w) \<in>
          set (find_available_slots db doctor_id date consultation_minutes))"
proof (intro conjI ballI impI)
  show "sorted_wrt (<) (find_available_slots db doctor_id date consultation_minutes)"
    by (rule find_available_slots_strict_sorted)
  show "set (find_available_slots db doctor_id date consultation_minutes) =
      spec_slot_set db doctor_id date consultation_minutes"
    by (rule find_available_slots_set)
next
  fix w
  assume w: "w \<in> set (spec_enabled_windows db doctor_id date)"
    and a: "start_time w \<le> end_time w \<and> spec_active_appointments db doctor_id date = []"
  from assms have "timedelta_minutes consultation_minutes \<le> 0"
    by (simp add: timedelta_minutes_def)
  with a have "combine date (start_time w) + timedelta_minutes consultation_minutes \<le>
      combine date (end_time w)"
    by (simp add: combine_def)
  with w a show "combine date (start_time w) \<in>
      set (find_available_slots db doctor_id date consultation_minutes)"
    by (simp add: window_start_is_slot)
qed

text \<open>Length 0 on the seed data: 09:00 is a slot.\<close>

theorem find_available_slots_nonpositive_witness:
  "(0::int) \<le> 0 \<and> monday_window \<in> set (spec_enabled_windows seed_db 1 20528) \<and>
   start_time monday_window \<le> end_time monday_window \<and>
   spec_active_appointments seed_db 1 20528 = [] \<and>
   combine 20528 (start_time monday_window) \<in> set (find_available_slots seed_db 1 20528 0) \<and>
   sorted_wrt (<) (find_available_slots seed_db 1 20528 0)"
proof -
  have w: "monday_window \<in> set (spec_enabled_windows seed_db 1 20528)"
    by (simp add: spec_enabled_windows_def seed_db_def monday_window_def weekday_def)
  have t: "start_time monday_window \<le> end_time monday_window"
    by (simp add: monday_window_def)
  have n: "spec_active_appointments seed_db 1 20528 = []"
    by (simp add: spec_active_appointments_def seed_db_def)
  have z: "(0::int) \<le> 0" by simp
  note inst = find_available_slots_nonpositive [OF z, of seed_db 1 20528]
  from inst have s: "sorted_wrt (<) (find_available_slots seed_db 1 20528 0)"
    by (rule conjunct1)
  from inst w t n have m: "combine 20528 (start_time monday_window) \<in>
      set (find_available_slots seed_db 1 20528 0)"
    by blast
  from z w t n m s show ?thesis by (intro conjI)
qed

text \<open>
  C9 as stated fails: with a consultation length of 0 the call on the seed data
  returns the 33 starts from 09:00 to 17:00, not a validation failure.
\<close>

theorem find_available_slots_zero_counterexample:
  "find_available_slots seed_db 1 20528 0 =
     [1773651600000000, 1773652500000000, 1773653400000000, 1773654300000000,
      1773655200000000, 1773656100000000, 1773657000000000, 1773657900000000,
      1773658800000000, 1773659700000000, 1773660600000000, 1773661500000000,
      1773662400000000, 1773663300000000, 1773664200000000, 1773665100000000,
      1773666000000000, 1773666900000000, 1773667800000000, 1773668700000000,
      1773669600000000, 1773670500000000, 1773671400000000, 1773672300000000,
      1773673200000000, 1773674100000000, 1773675000000000, 1773675900000000,
      1773676800000000, 1773677700000000, 1773678600000000, 1773679500000000,
      1773680400000000]"
proof -
  have w: "spec_enabled_windows seed_db 1 20528 = [monday_window]"
    by (simp add: spec_enabled_windows_def seed_db_def monday_window_def weekday_def)
  have n: "spec_active_appointments seed_db 1 20528 = []"
    by (simp add: spec_active_appointments_def seed_db_def)
  have k: "combine 20528 (start_time monday_window) + int k * timedelta_minutes 15 +
      timedelta_minutes 0 \<le> combine 20528 (end_time monday_window) \<longleftrightarrow> k < 33" for k :: nat
    by (auto simp: combine_def timedelta_minutes_def monday_window_def)
  have "find_available_slots seed_db 1 20528 0 =
      map (\<lambda>k. combine 20528 (start_time monday_window) + int k * timedelta_minutes 15) [0..<33]"
    using w n k by (rule single_window_slots)
  also have "\<dots> =
     [1773651600000000, 1773652500000000, 1773653400000000, 1773654300000000,
      1773655200000000, 1773656100000000, 1773657000000000, 1773657900000000,
      1773658800000000, 1773659700000000, 1773660600000000, 1773661500000000,
      1773662400000000, 1773663300000000, 1773664200000000, 1773665100000000,
      1773666000000000, 1773666900000000, 1773667800000000, 1773668700000000,
      1773669600000000, 1773670500000000, 1773671400000000, 1773672300000000,
      1773673200000000, 1773674100000000, 1773675000000000, 1773675900000000,
      1773676800000000, 1773677700000000, 1773678600000000, 1773679500000000,
      1773680400000000]"
    unfolding combine_def timedelta_minutes_def monday_window_def by code_simp
  finally show ?thesis .
qed

section \<open>Cancellation\<close>

lemma find_map_update_id:
  assumes "\<And>a. appt_id (g a) = appt_id a"
  shows "find (\<lambda>a. appt_id a = i) (map (\<lambda>a. if appt_id a = i then g a else a) xs) =
     map_option g (find (\<lambda>a. appt_id a = i) xs)"
  by (induction xs) (simp_all add: assms)

lemma cancel_appointment_rejected:
  assumes "find (\<lambda>a. appt_id a = appointment_id) (appointments db) = Some appt"
    and "status appt = CANCELLED \<or> status appt = COMPLETED"
  shows "cancel_appointment now db appointment_id =
     (db, CancelFailure ''Cannot cancel this appointment'')"
  using assms by (auto simp: cancel_appointment_def)

lemma cancel_appointment_accepted:
  assumes "find (\<lambda>a. appt_id a = appointment_id) (appointments db) = Some appt"
    and "status appt \<noteq> CANCELLED" and "status appt \<noteq> COMPLETED"
  shows "cancel_appointment now db appointment_id =
     (db\<lparr>appointments :=
          map (\<lambda>a. if appt_id a = appointment_id
                    then a\<lparr>status := CANCELLED, updated_at := Some now\<rparr> else a)
            (appointments db)\<rparr>,
      CancelSuccess ''Appointment cancelled'')"
  using assms by (simp add: cancel_appointment_def)

lemma cancel_appointment_twice:
  assumes f: "find (\<lambda>a. appt_id a = appointment_id) (appointments db) = Some appt"
    and "status appt \<noteq> CANCELLED" and "status appt \<noteq> COMPLETED"
  shows "cancel_appointment now db appointment_id =
       (db\<lparr>appointments :=
            map (\<lambda>a. if appt_id a = appointment_id
                      then a\<lparr>status := CANCELLED, updated_at := Some now\<rparr> else a)
              (appointments db)\<rparr>,
        CancelSuccess ''Appointment cancelled'')"
    and "find (\<lambda>a. appt_id a = appointment_id)
           (appointments (fst (cancel_appointment now db appointment_id))) =
         Some (appt\<lparr>status := CANCELLED, updated_at := Some now\<rparr>)"
    and "cancel_appointment now2 (fst (cancel_appointment now db appointment_id))
           appointment_id =
         (fst (cancel_appointment now db appointment_id),
          CancelFailure ''Cannot cancel this appointment'')"
proof -
  let ?g = "\<lambda>a. a\<lparr>status := CANCELLED, updated_at := Some now\<rparr>"
  let ?db1 = "db\<lparr>appointments :=
      map (\<lambda>a. if appt_id a = appointment_id then ?g a else a) (appointments db)\<rparr>"
  show first: "cancel_appointment now db appointment_id =
      (?db1, CancelSuccess ''Appointment cancelled'')"
    using assms by (rule cancel_appointment_accepted)
  have found: "find (\<lambda>a. appt_id a = appointment_id) (appointments ?db1) = Some (?g appt)"
    using f by (simp add: find_map_update_id)
  then show "find (\<lambda>a. appt_id a = appointment_id)
      (appointments (fst (cancel_appointment now db appointment_id))) = Some (?g appt)"
    by (simp only: first fst_conv)
  have "cancel_appointment now2 ?db1 appointment_id =
      (?db1, CancelFailure ''Cannot cancel this appointment'')"
    using found by (rule cancel_appointment_rejected) simp
  then show "cancel_appointment now2 (fst (cancel_appointment now db appointment_id))
      appointment_id =
    (fst (cancel_appointment now db appointment_id),
     CancelFailure ''Cannot cancel this appointment'')"
    by (simp only: first fst_conv)
qed

text \<open>
  C6 (as amended). For every appointment whose status is CANCELLED or COMPLETED,
  \<open>cancel_appointment\<close> fails with "Cannot cancel this appointment" (the invalid-state
  outcome) and leaves the database unchanged. For every other stored appointment
  (SCHEDULED, CONFIRMED and also NO_SHOW) the call succeeds and the database it leaves
  is the old one with the status of that row set to CANCELLED and its \<open>updated_at\<close> set
  to the clock, every other row as it was; the row then found under the id is the
  cancelled one, and a second cancellation, at any later clock, fails with the
  invalid-state outcome and changes nothing: cancelling twice succeeds exactly once.
\<close>

theorem cancel_appointment_terminal:
  assumes "find (\<lambda>a. appt_id a = appointment_id) (appointments db) = Some appt"
  shows "(status appt = CANCELLED \<or> status appt = COMPLETED \<longrightarrow>
            cancel_appointment now db appointment_id =
              (db, CancelFailure ''Cannot cancel this appointment'')) \<and>
         (status appt \<noteq> CANCELLED \<and> status appt \<noteq> COMPLETED \<longrightarrow>
            cancel_appointment now db appointment_id =
              (db\<lparr>appointments :=
                   map (\<lambda>a. if appt_id a = appointment_id
                             then a\<lparr>status := CANCELLED, updated_at := Some now\<rparr> else a)
                     (appointments db)\<rparr>,
               CancelSuccess ''Appointment cancelled'') \<and>
            find (\<lambda>a. appt_id a = appointment_id)
              (appointments (fst (cancel_appointment now db appointment_id))) =
              Some (appt\<lparr>status := CANCELLED, updated_at := Some now\<rparr>) \<and>
            cancel_appointment now2 (fst (cancel_appointment now db appointment_id))
              appointment_id =
              (fst (cancel_appointment now db appointment_id),
               CancelFailure ''Cannot cancel this appointment''))"
proof (intro conjI impI)
  assume "status appt = CANCELLED \<or> status appt = COMPLETED"
  with assms show "cancel_appointment now db appointment_id =
      (db, CancelFailure ''Cannot cancel this appointment'')"
    by (rule cancel_appointment_rejected)
next
  assume a: "status appt \<noteq> CANCELLED \<and> status appt \<noteq> COMPLETED"
  then have 1: "status appt \<noteq> CANCELLED" and 2: "status appt \<noteq> COMPLETED"
    by simp_all
  show "cancel_appointment now db appointment_id =
      (db\<lparr>appointments :=
           map (\<lambda>a. if appt_id a = appointment_id
                     then a\<lparr>status := CANCELLED, updated_at := Some now\<rparr> else a)
             (appointments db)\<rparr>,
       CancelSuccess ''Appointment cancelled'')"
    using assms 1 2 by (rule cancel_appointment_twice(1))
next
  assume a: "status appt \<noteq> CANCELLED \<and> status appt \<noteq> COMPLETED"
  then have 1: "status appt \<noteq> CANCELLED" and 2: "status appt \<noteq> COMPLETED"
    by simp_all
  show "find (\<lambda>a. appt_id a = appointment_id)
      (appointments (fst (cancel_appointment now db appointment_id))) =
    Some (appt\<lparr>status := CANCELLED, updated_at := Some now\<rparr>)"
    using assms 1 2 by (rule cancel_appointment_twice(2))
next
  assume a: "status appt \<noteq> CANCELLED \<and> status appt \<noteq> COMPLETED"
  then have 1: "status appt \<noteq> CANCELLED" and 2: "status appt \<noteq> COMPLETED"
    by simp_all
  show "cancel_appointment now2 (fst (cancel_appointment now db appointment_id))
      appointment_id =
    (fst (cancel_appointment now db appointment_id),
     CancelFailure ''Cannot cancel this appointment'')"
    using assms 1 2 by (rule cancel_appointment_twice(3))
qed

text \<open>
  A cancelled appointment is rejected. The scheduled appointment 1 is cancelled once:
  its row becomes CANCELLED with \<open>updated_at\<close> set, and the second call is rejected.
\<close>

theorem cancel_appointment_terminal_witness:
  "find (\<lambda>a. appt_id a = 1) (appointments cancelled_db) =
      Some (scheduled_appt\<lparr>status := CANCELLED\<rparr>) \<and>
   cancel_appointment 1773700000000000 cancelled_db 1 =
      (cancelled_db, CancelFailure ''Cannot cancel this appointment'') \<and>
   find (\<lambda>a. appt_id a = 1) (appointments booked_db) = Some scheduled_appt \<and>
   status scheduled_appt = SCHEDULED \<and>
   cancel_appointment 1773700000000000 booked_db 1 =
      (seed_db\<lparr>appointments :=
         [scheduled_appt\<lparr>status := CANCELLED, updated_at := Some 1773700000000000\<rparr>]\<rparr>,
       CancelSuccess ''Appointment cancelled'') \<and>
   cancel_appointment 1773800000000000
      (seed_db\<lparr>appointments :=
         [scheduled_appt\<lparr>status := CANCELLED, updated_at := Some 1773700000000000\<rparr>]\<rparr>) 1 =
      (seed_db\<lparr>appointments :=
         [scheduled_appt\<lparr>status := CANCELLED, updated_at := Some 1773700000000000\<rparr>]\<rparr>,
       CancelFailure ''Cannot cancel this appointment'')"
proof -
  let ?db1 = "seed_db\<lparr>appointments :=
      [scheduled_appt\<lparr>status := CANCELLED, updated_at := Some 1773700000000000\<rparr>]\<rparr>"
  have c: "find (\<lambda>a. appt_id a = 1) (appointments cancelled_db) =
      Some (scheduled_appt\<lparr>status := CANCELLED\<rparr>)"
    by (simp add: cancelled_db_def seed_db_def scheduled_appt_def)
  have b: "find (\<lambda>a. appt_id a = 1) (appointments booked_db) = Some scheduled_appt"
    by (simp add: booked_db_def seed_db_def scheduled_appt_def)
  have st: "status scheduled_appt = SCHEDULED"
    by (simp add: scheduled_appt_def)
  have m: "booked_db\<lparr>appointments :=
      map (\<lambda>a. if appt_id a = 1
                then a\<lparr>status := CANCELLED, updated_at := Some 1773700000000000\<rparr> else a)
        (appointments booked_db)\<rparr> = ?db1"
    by (simp add: booked_db_def seed_db_def scheduled_appt_def)
  from cancel_appointment_terminal [OF c, of 1773700000000000]
  have 1: "cancel_appointment 1773700000000000 cancelled_db 1 =
      (cancelled_db, CancelFailure ''Cannot cancel this appointment'')"
    by simp
  note inst = cancel_appointment_terminal [OF b, of 1773700000000000 1773800000000000]
  have ne: "status scheduled_appt \<noteq> CANCELLED \<and> status scheduled_appt \<noteq> COMPLETED"
    by (simp add: st)
  from inst ne have "cancel_appointment 1773700000000000 booked_db 1 =
      (booked_db\<lparr>appointments :=
         map (\<lambda>a. if appt_id a = 1
                   then a\<lparr>status := CANCELLED, updated_at := Some 1773700000000000\<rparr> else a)
           (appointments booked_db)\<rparr>,
       CancelSuccess ''Appointment cancelled'')"
    by blast
  then have 2: "cancel_appointment 1773700000000000 booked_db 1 =
      (?db1, CancelSuccess ''Appointment cancelled'')"
    by (simp only: m)
  from inst ne have "cancel_appointment 1773800000000000
      (fst (cancel_appointment 1773700000000000 booked_db 1)) 1 =
      (fst (cancel_appointment 1773700000000000 booked_db 1),
       CancelFailure ''Cannot cancel this appointment'')"
    by blast
  then have 3: "cancel_appointment 1773800000000000 ?db1 1 =
      (?db1, CancelFailure ''Cannot cancel this appointment'')"
    by (simp only: 2 fst_conv)
  from c 1 b st 2 3 show ?thesis by (intro conjI)
qed

text \<open>
  C6 as stated fails for NO_SHOW: the guard of \<open>cancel_appointment\<close> lists CANCELLED and
  COMPLETED only, so a NO_SHOW appointment is cancelled and its row is changed.
\<close>

theorem cancel_no_show_counterexample:
  "status (scheduled_appt\<lparr>status := NO_SHOW\<rparr>) = NO_SHOW \<and>
   appointments no_show_db = [scheduled_appt\<lparr>status := NO_SHOW\<rparr>] \<and>
   cancel_appointment 1773700000000000 no_show_db 1 =
     (seed_db\<lparr>appointments :=
        [scheduled_appt\<lparr>status := CANCELLED, updated_at := Some 1773700000000000\<rparr>]\<rparr>,
      CancelSuccess ''Appointment cancelled'')"
  by (simp add: cancel_appointment_def no_show_db_def seed_db_def scheduled_appt_def)

text \<open>
  C7. Cancelling the scheduled appointment 1 sets its status to CANCELLED and writes
  the clock into \<open>updated_at\<close>; the column \<open>cancelled_at\<close> is not written and stays NULL.
\<close>

theorem cancel_leaves_cancelled_at_unset:
  "status scheduled_appt = SCHEDULED \<and> cancelled_at scheduled_appt = None \<and>
   cancel_appointment 1773700000000000 booked_db 1 =
     (seed_db\<lparr>appointments :=
        [scheduled_appt\<lparr>status := CANCELLED, updated_at := Some 1773700000000000\<rparr>]\<rparr>,
      CancelSuccess ''Appointment cancelled'') \<and>
   cancelled_at (scheduled_appt\<lparr>status := CANCELLED, updated_at := Some 1773700000000000\<rparr>)
     = None"
  by (simp add: cancel_appointment_def booked_db_def seed_db_def scheduled_appt_def)

section \<open>Booking and the no-show predictor\<close>

lemma book_appointment_validated:
  assumes "passes_validation env db patient_id doctor_id hospital_id inp dt patient doctor"
  shows "book_appointment env db patient_id doctor_id hospital_id inp dur rsn =
     (case flush_commit env db (new_appointment 0 patient_id doctor_id hospital_id dt dur
              (stored_probability env patient doctor dt) rsn) of
        Inr (db', appointment_id) \<Rightarrow>
          (db', BookingSuccess appointment_id (stored_probability env patient doctor dt))
      | Inl IntegrityError \<Rightarrow> (db, BookingFailure ''Slot already booked'')
      | Inl _ \<Rightarrow> (db, BookingFailure ''Internal server error''))"
  using assms
  unfolding passes_validation_def book_appointment_def MAX_BOOKING_DAYS_AHEAD_def
    new_appointment_def stored_probability_def Let_def
  by auto

lemma flush_commit_violation:
  assumes "\<not> storage_fault env" and "violates_uix_doctor_datetime db doctor_id dt"
  shows "flush_commit env db (new_appointment i patient_id doctor_id hospital_id dt dur p rsn) =
     Inl IntegrityError"
  using assms by (simp add: flush_commit_def new_appointment_def)

lemma flush_commit_insert:
  assumes "\<not> storage_fault env" and "\<not> violates_uix_doctor_datetime db doctor_id dt"
  shows "flush_commit env db (new_appointment i patient_id doctor_id hospital_id dt dur p rsn) =
     Inr (db\<lparr>appointments := appointments db @
            [new_appointment (next_appointment_id db) patient_id doctor_id hospital_id dt dur p rsn]\<rparr>,
          next_appointment_id db)"
  using assms by (simp add: flush_commit_def new_appointment_def Let_def)

lemma book_appointment_slot_taken:
  assumes "passes_validation env db patient_id doctor_id hospital_id inp dt patient doctor"
    and "\<not> storage_fault env" and "violates_uix_doctor_datetime db doctor_id dt"
  shows "book_appointment env db patient_id doctor_id hospital_id inp dur rsn =
     (db, BookingFailure ''Slot already booked'')"
  by (simp add: book_appointment_validated [OF assms(1)] flush_commit_violation [OF assms(2,3)])

lemma book_appointment_success:
  assumes "passes_validation env db patient_id doctor_id hospital_id inp dt patient doctor"
    and "\<not> storage_fault env" and "\<not> violates_uix_doctor_datetime db doctor_id dt"
  shows "book_appointment env db patient_id doctor_id hospital_id inp dur rsn =
     (db\<lparr>appointments := appointments db @
        [new_appointment (next_appointment_id db) patient_id doctor_id hospital_id dt dur
           (stored_probability env patient doctor dt) rsn]\<rparr>,
      BookingSuccess (next_appointment_id db) (stored_probability env patient doctor dt))"
  by (simp add: book_appointment_validated [OF assms(1)] flush_commit_insert [OF assms(2,3)])

lemma predict_total: "\<exists>r. predict self features = Inr r"
  by (simp add: predict_def split: sum.splits)

lemma predict_failure:
  "predict_try self features = Inl e \<Longrightarrow>
   predict self features = Inr \<lparr>probability = 0, label = 0\<rparr>"
  by (simp add: predict_def)

lemma predict_try_model_raises:
  assumes "float_all (map (\<lambda>k. case features k of None \<Rightarrow> PyNum 0 | Some v \<Rightarrow> v)
             ordered_keys) = Inr row"
    and "model_score self [row] = Inl e"
  shows "predict_try self features = Inl e"
  using assms by (simp add: predict_try_def)

lemma ml_prediction_try_raises_iff:
  "(\<exists>e. ml_prediction_try env patient doctor dt = Inl e) \<longleftrightarrow>
   (\<exists>e. build_features patient doctor dt (clock_features env) = Inl e)"
proof (cases "build_features patient doctor dt (clock_features env)")
  case (Inl e)
  then show ?thesis by (simp add: ml_prediction_try_def)
next
  case (Inr fs)
  obtain r where "predict (get_predictor (singleton env) (model_path_file env)) fs = Inr r"
    using predict_total by blast
  with Inr show ?thesis by (simp add: ml_prediction_try_def)
qed

lemma ml_prediction_try_predict_failure:
  assumes "build_features patient doctor dt (clock_features env) = Inr fs"
    and "predict_try (get_predictor (singleton env) (model_path_file env)) fs = Inl e"
  shows "ml_prediction_try env patient doctor dt = Inr 0"
  using assms by (simp add: ml_prediction_try_def predict_failure)

lemma stored_probability_default:
  assumes "build_features patient doctor dt (clock_features env) = Inl e"
  shows "stored_probability env patient doctor dt = 1/2"
  using assms by (simp add: stored_probability_def ml_prediction_try_def)

lemma stored_probability_predict_failure:
  assumes "build_features patient doctor dt (clock_features env) = Inr fs"
    and "predict_try (get_predictor (singleton env) (model_path_file env)) fs = Inl e"
  shows "stored_probability env patient doctor dt = 0"
  using ml_prediction_try_predict_failure [OF assms] by (simp add: stored_probability_def)

text \<open>
  C10. \<open>predict\<close> returns a prediction for every predictor and every feature
  dictionary, it never raises. When the features convert and the wrapped model raises
  while scoring, it returns probability 0.0 with label 0. At the level of the booking:
  when the features were built and the failure is inside \<open>predict\<close>, the scoring block
  of \<open>book_appointment\<close> yields 0.0 and that is what is stored, not the default 0.5;
  the block itself raises (and the default 0.5 is taken) exactly when
  \<open>build_features\<close> raises. \<open>get_predictor\<close> catches its own failures and falls back
  to the dummy model, so acquiring the predictor never raises.
\<close>

theorem predict_never_raises:
  "(\<exists>r. predict self features = Inr r) \<and>
   (float_all (map (\<lambda>k. case features k of None \<Rightarrow> PyNum 0 | Some v \<Rightarrow> v) ordered_keys)
        = Inr row \<and> model_score self [row] = Inl e \<longrightarrow>
      predict self features = Inr \<lparr>probability = 0, label = 0\<rparr>) \<and>
   (build_features patient doctor dt (clock_features env) = Inr fs \<and>
    predict_try (get_predictor (singleton env) (model_path_file env)) fs = Inl e' \<longrightarrow>
      ml_prediction_try env patient doctor dt = Inr 0 \<and>
      stored_probability env patient doctor dt = 0) \<and>
   ((\<exists>x. ml_prediction_try env patient doctor dt = Inl x) \<longleftrightarrow>
    (\<exists>x. build_features patient doctor dt (clock_features env) = Inl x))"
proof (intro conjI impI)
  show "\<exists>r. predict self features = Inr r"
    by (rule predict_total)
  show "predict self features = Inr \<lparr>probability = 0, label = 0\<rparr>"
    if "float_all (map (\<lambda>k. case features k of None \<Rightarrow> PyNum 0 | Some v \<Rightarrow> v) ordered_keys)
        = Inr row \<and> model_score self [row] = Inl e"
    using that predict_try_model_raises predict_failure by blast
next
  assume a: "build_features patient doctor dt (clock_features env) = Inr fs \<and>
    predict_try (get_predictor (singleton env) (model_path_file env)) fs = Inl e'"
  show "ml_prediction_try env patient doctor dt = Inr 0"
    using a ml_prediction_try_predict_failure by blast
next
  assume a: "build_features patient doctor dt (clock_features env) = Inr fs \<and>
    predict_try (get_predictor (singleton env) (model_path_file env)) fs = Inl e'"
  show "stored_probability env patient doctor dt = 0"
    using a stored_probability_predict_failure by blast
next
  show "(\<exists>x. ml_prediction_try env patient doctor dt = Inl x) \<longleftrightarrow>
    (\<exists>x. build_features patient doctor dt (clock_features env) = Inl x)"
    by (rule ml_prediction_try_raises_iff)
qed

text \<open>
  C2. When a request passes the validations and the insert violates the uniqueness
  constraint on (doctor, start), the flush raises IntegrityError and
  \<open>book_appointment\<close> returns the slot-taken outcome "Slot already booked", not
  "Internal server error"; the database it leaves is the one it found, so no row of
  the rejected appointment remains.
\<close>

theorem book_appointment_integrity_error:
  assumes "passes_validation env db patient_id doctor_id hospital_id inp dt patient doctor"
    and "\<not> storage_fault env" and "violates_uix_doctor_datetime db doctor_id dt"
  shows "flush_commit env db (new_appointment 0 patient_id doctor_id hospital_id dt dur
            (stored_probability env patient doctor dt) rsn) = Inl IntegrityError \<and>
         book_appointment env db patient_id doctor_id hospital_id inp dur rsn =
           (db, BookingFailure ''Slot already booked'')"
  using flush_commit_violation [OF assms(2,3)] book_appointment_slot_taken [OF assms]
  by simp

text \<open>
  C8 (as amended). For a request that passes the validations and whose insert is
  accepted, the booking succeeds whatever the scoring does: the appointment is
  appended with some probability \<open>p\<close> and returned with it. If \<open>build_features\<close> raises,
  \<open>p\<close> is the default 0.5; if the features were built and the failure is raised inside
  \<open>predict\<close> (the wrapped model raises), \<open>predict\<close> has caught it and \<open>p\<close> is 0.0.
\<close>

theorem book_appointment_scoring_failure:
  assumes "passes_validation env db patient_id doctor_id hospital_id inp dt patient doctor"
    and "\<not> storage_fault env" and "\<not> violates_uix_doctor_datetime db doctor_id dt"
  shows "\<exists>p. book_appointment env db patient_id doctor_id hospital_id inp dur rsn =
            (db\<lparr>appointments := appointments db @
               [new_appointment (next_appointment_id db) patient_id doctor_id hospital_id
                  dt dur p rsn]\<rparr>,
             BookingSuccess (next_appointment_id db) p) \<and>
          ((\<exists>e. build_features patient doctor dt (clock_features env) = Inl e) \<longrightarrow> p = 1/2) \<and>
          (\<forall>fs. build_features patient doctor dt (clock_features env) = Inr fs \<and>
             (\<exists>e. predict_try (get_predictor (singleton env) (model_path_file env)) fs = Inl e)
             \<longrightarrow> p = 0)"
proof (intro exI conjI allI impI)
  show "book_appointment env db patient_id doctor_id hospital_id inp dur rsn =
      (db\<lparr>appointments := appointments db @
         [new_appointment (next_appointment_id db) patient_id doctor_id hospital_id dt dur
            (stored_probability env patient doctor dt) rsn]\<rparr>,
       BookingSuccess (next_appointment_id db) (stored_probability env patient doctor dt))"
    using assms by (rule book_appointment_success)
  show "stored_probability env patient doctor dt = 1/2"
    if "\<exists>e. build_features patient doctor dt (clock_features env) = Inl e"
    using that stored_probability_default by blast
  show "stored_probability env patient doctor dt = 0"
    if "build_features patient doctor dt (clock_features env) = Inr fs \<and>
      (\<exists>e. predict_try (get_predictor (singleton env) (model_path_file env)) fs = Inl e)" for fs
    using that stored_probability_predict_failure by blast
qed

lemma seed_passes:
  "passes_validation seed_env seed_db 11 1 1 (DtDatetime 1773658800000000 None) 1773658800000000
     \<lparr>pat_id = 11, date_of_birth = None\<rparr> \<lparr>doc_id = 1, consultation_duration = Some 30\<rparr>"
  by (simp add: passes_validation_def seed_env_def seed_db_def timedelta_days_def)

lemma build_features_seed:
  "\<exists>fs. build_features patient \<lparr>doc_id = 1, consultation_duration = Some 30\<rparr> dt now = Inr fs"
  by (simp add: build_features_def Let_def)

lemma build_features_null:
  "build_features patient \<lparr>doc_id = 1, consultation_duration = None\<rparr> dt now = Inl TypeError"
  by (simp add: build_features_def Let_def)

lemma float_all_build_features:
  assumes "build_features patient doctor dt now = Inr fs"
  shows "\<exists>row. float_all (map (\<lambda>k. case fs k of None \<Rightarrow> PyNum 0 | Some v \<Rightarrow> v) ordered_keys)
     = Inr row"
proof (cases "consultation_duration doctor")
  case None
  with assms show ?thesis by (simp add: build_features_def Let_def)
next
  case (Some n)
  with assms have "fs = map_of
               [(''past_no_shows'', PyNum 0),
                (''lead_time_days'', PyNum (max (real_of_int (dt - now) / 1000000) 0 / 86400)),
                (''time_of_day_bucket'', PyNum (if hour_of dt < 9 then 0 else if hour_of dt < 12 then 1 else if hour_of dt < 17 then 2 else 3)),
                (''day_of_week'', PyNum (real_of_int (weekday (dt div 86400000000)))),
                (''chronic_conditions_flag'', PyNum 0),
                (''doctor_consultation_duration'', PyNum (real_of_int n)),
                (''recent_no_shows'', PyNum 0)]"
    by (simp add: build_features_def Let_def)
  then show ?thesis
    by (simp add: ordered_keys_def)
qed

lemma py_round4_tenth: "py_round4 (1/10) = 1/10"
  by (simp add: py_round4_def Let_def)

lemma stored_probability_dummy:
  assumes "consultation_duration doctor \<noteq> None"
  shows "stored_probability seed_env patient doctor dt = 1/10"
proof -
  from assms obtain fs where fs: "build_features patient doctor dt (clock_features seed_env) = Inr fs"
    by (auto simp: build_features_def Let_def)
  then obtain row where row: "float_all (map (\<lambda>k. case fs k of None \<Rightarrow> PyNum 0 | Some v \<Rightarrow> v)
      ordered_keys) = Inr row"
    using float_all_build_features by blast
  have p: "get_predictor (singleton seed_env) (model_path_file seed_env) =
      \<lparr>model = Some create_dummy_model\<rparr>"
    by (simp add: get_predictor_def load_model_def seed_env_def)
  have "model_score \<lparr>model = Some create_dummy_model\<rparr> [row] = Inr (1/10)"
    by (simp add: model_score_def create_dummy_model_def)
  with row have "predict \<lparr>model = Some create_dummy_model\<rparr> fs =
      Inr \<lparr>probability = 1/10, label = 0\<rparr>"
    by (simp add: predict_def predict_try_def py_round4_tenth)
  with fs p show ?thesis
    by (simp add: stored_probability_def ml_prediction_try_def)
qed

lemma raising_predict_try:
  assumes "build_features patient doctor dt now = Inr fs"
  shows "predict_try (get_predictor (singleton raising_env) (model_path_file raising_env)) fs =
     Inl OtherException"
proof -
  obtain row where row: "float_all (map (\<lambda>k. case fs k of None \<Rightarrow> PyNum 0 | Some v \<Rightarrow> v)
      ordered_keys) = Inr row"
    using float_all_build_features [OF assms] by blast
  have p: "get_predictor (singleton raising_env) (model_path_file raising_env) =
      \<lparr>model = Some raising_model\<rparr>"
    by (simp add: get_predictor_def load_model_def raising_env_def seed_env_def)
  have "model_score \<lparr>model = Some raising_model\<rparr> [row] = Inl OtherException"
    by (simp add: model_score_def raising_model_def)
  with row have "predict_try \<lparr>model = Some raising_model\<rparr> fs = Inl OtherException"
    by (rule predict_try_model_raises)
  with p show ?thesis by simp
qed

lemma stored_probability_raising:
  assumes "consultation_duration doctor \<noteq> None"
  shows "stored_probability raising_env patient doctor dt = 0"
proof -
  from assms obtain fs where
    fs: "build_features patient doctor dt (clock_features raising_env) = Inr fs"
    by (auto simp: build_features_def Let_def)
  from fs raising_predict_try [OF fs] show ?thesis
    by (rule stored_probability_predict_failure)
qed

lemma book_appointment_failure_no_write:
  assumes "snd (book_appointment env db patient_id doctor_id hospital_id inp dur rsn) =
     BookingFailure m"
  shows "fst (book_appointment env db patient_id doctor_id hospital_id inp dur rsn) = db"
  using assms
  unfolding book_appointment_def Let_def
  by (auto split: sum.splits option.splits if_splits py_exception.splits prod.splits)

text \<open>
  C5 (as amended). After normalising the start, \<open>book_appointment\<close> checks, in this
  order and each with its own message: the start is strictly after the clock ("Cannot
  book in the past"), the start is at most 90 days ahead ("Booking too far in
  future"), then the patient, the doctor and the hospital exist ("Patient not found",
  "Doctor not found", "Hospital not found"). Each check is reached only when the
  earlier ones passed, and every failure outcome leaves the database as it was.
\<close>

theorem book_appointment_validation_order:
  assumes "normalize_datetime_input inp = Inr dt"
  shows
    "(dt \<le> clock_booking env \<longrightarrow>
        book_appointment env db patient_id doctor_id hospital_id inp dur rsn =
          (db, BookingFailure ''Cannot book in the past'')) \<and>
     (clock_booking env < dt \<and> clock_booking env + timedelta_days 90 < dt \<longrightarrow>
        book_appointment env db patient_id doctor_id hospital_id inp dur rsn =
          (db, BookingFailure ''Booking too far in future'')) \<and>
     (clock_booking env < dt \<and> dt \<le> clock_booking env + timedelta_days 90 \<and>
      find (\<lambda>p. pat_id p = patient_id) (patients db) = None \<longrightarrow>
        book_appointment env db patient_id doctor_id hospital_id inp dur rsn =
          (db, BookingFailure ''Patient not found'')) \<and>
     (clock_booking env < dt \<and> dt \<le> clock_booking env + timedelta_days 90 \<and>
      find (\<lambda>p. pat_id p = patient_id) (patients db) \<noteq> None \<and>
      find (\<lambda>d. doc_id d = doctor_id) (doctors db) = None \<longrightarrow>
        book_appointment env db patient_id doctor_id hospital_id inp dur rsn =
          (db, BookingFailure ''Doctor not found'')) \<and>
     (clock_booking env < dt \<and> dt \<le> clock_booking env + timedelta_days 90 \<and>
      find (\<lambda>p. pat_id p = patient_id) (patients db) \<noteq> None \<and>
      find (\<lambda>d. doc_id d = doctor_id) (doctors db) \<noteq> None \<and>
      find (\<lambda>h. hosp_id h = hospital_id) (hospitals db) = None \<longrightarrow>
        book_appointment env db patient_id doctor_id hospital_id inp dur rsn =
          (db, BookingFailure ''Hospital not found'')) \<and>
     (\<forall>m. snd (book_appointment env db patient_id doctor_id hospital_id inp dur rsn) =
            BookingFailure m \<longrightarrow>
          fst (book_appointment env db patient_id doctor_id hospital_id inp dur rsn) = db)"
proof (intro conjI impI allI)
  show "book_appointment env db patient_id doctor_id hospital_id inp dur rsn =
      (db, BookingFailure ''Cannot book in the past'')" if "dt \<le> clock_booking env"
    using assms that by (simp add: book_appointment_def)
next
  show "book_appointment env db patient_id doctor_id hospital_id inp dur rsn =
      (db, BookingFailure ''Booking too far in future'')"
    if "clock_booking env < dt \<and> clock_booking env + timedelta_days 90 < dt"
    using assms that by (simp add: book_appointment_def MAX_BOOKING_DAYS_AHEAD_def)
next
  show "book_appointment env db patient_id doctor_id hospital_id inp dur rsn =
      (db, BookingFailure ''Patient not found'')"
    if "clock_booking env < dt \<and> dt \<le> clock_booking env + timedelta_days 90 \<and>
      find (\<lambda>p. pat_id p = patient_id) (patients db) = None"
    using assms that by (simp add: book_appointment_def MAX_BOOKING_DAYS_AHEAD_def)
next
  show "book_appointment env db patient_id doctor_id hospital_id inp dur rsn =
      (db, BookingFailure ''Doctor not found'')"
    if "clock_booking env < dt \<and> dt \<le> clock_booking env + timedelta_days 90 \<and>
      find (\<lambda>p. pat_id p = patient_id) (patients db) \<noteq> None \<and>
      find (\<lambda>d. doc_id d = doctor_id) (doctors db) = None"
    using assms that by (auto simp: book_appointment_def MAX_BOOKING_DAYS_AHEAD_def)
next
  show "book_appointment env db patient_id doctor_id hospital_id inp dur rsn =
      (db, BookingFailure ''Hospital not found'')"
    if "clock_booking env < dt \<and> dt \<le> clock_booking env + timedelta_days 90 \<and>
      find (\<lambda>p. pat_id p = patient_id) (patients db) \<noteq> None \<and>
      find (\<lambda>d. doc_id d = doctor_id) (doctors db) \<noteq> None \<and>
      find (\<lambda>h. hosp_id h = hospital_id) (hospitals db) = None"
    using assms that by (auto simp: book_appointment_def MAX_BOOKING_DAYS_AHEAD_def)
next
  show "fst (book_appointment env db patient_id doctor_id hospital_id inp dur rsn) = db"
    if "snd (book_appointment env db patient_id doctor_id hospital_id inp dur rsn) =
      BookingFailure m" for m
    using that by (rule book_appointment_failure_no_write)
qed

text \<open>One request for each of the five rejections, on the seed data.\<close>

theorem book_appointment_validation_order_witness:
  "book_appointment seed_env seed_db 11 1 1 (DtDatetime 1773097200000000 None) 30 None =
     (seed_db, BookingFailure ''Cannot book in the past'') \<and>
   book_appointment seed_env seed_db 11 1 1 (DtDatetime 1780963200000000 None) 30 None =
     (seed_db, BookingFailure ''Booking too far in future'') \<and>
   book_appointment seed_env seed_db 99 1 1 (DtDatetime 1773658800000000 None) 30 None =
     (seed_db, BookingFailure ''Patient not found'') \<and>
   book_appointment seed_env seed_db 11 2 1 (DtDatetime 1773658800000000 None) 30 None =
     (seed_db, BookingFailure ''Doctor not found'') \<and>
   book_appointment seed_env seed_db 11 1 5 (DtDatetime 1773658800000000 None) 30 None =
     (seed_db, BookingFailure ''Hospital not found'')"
proof (intro conjI)
  have n1: "normalize_datetime_input (DtDatetime 1773097200000000 None) = Inr 1773097200000000"
    and n2: "normalize_datetime_input (DtDatetime 1780963200000000 None) = Inr 1780963200000000"
    and n3: "normalize_datetime_input (DtDatetime 1773658800000000 None) = Inr 1773658800000000"
    by simp_all
  show "book_appointment seed_env seed_db 11 1 1 (DtDatetime 1773097200000000 None) 30 None =
     (seed_db, BookingFailure ''Cannot book in the past'')"
    using book_appointment_validation_order [OF n1, of seed_env seed_db 11 1 1 30 None]
    by (simp add: seed_env_def)
  show "book_appointment seed_env seed_db 11 1 1 (DtDatetime 1780963200000000 None) 30 None =
     (seed_db, BookingFailure ''Booking too far in future'')"
    using book_appointment_validation_order [OF n2, of seed_env seed_db 11 1 1 30 None]
    by (simp add: seed_env_def timedelta_days_def)
  show "book_appointment seed_env seed_db 99 1 1 (DtDatetime 1773658800000000 None) 30 None =
     (seed_db, BookingFailure ''Patient not found'')"
    using book_appointment_validation_order [OF n3, of seed_env seed_db 99 1 1 30 None]
    by (simp add: seed_env_def seed_db_def timedelta_days_def)
  show "book_appointment seed_env seed_db 11 2 1 (DtDatetime 1773658800000000 None) 30 None =
     (seed_db, BookingFailure ''Doctor not found'')"
    using book_appointment_validation_order [OF n3, of seed_env seed_db 11 2 1 30 None]
    by (simp add: seed_env_def seed_db_def timedelta_days_def)
  show "book_appointment seed_env seed_db 11 1 5 (DtDatetime 1773658800000000 None) 30 None =
     (seed_db, BookingFailure ''Hospital not found'')"
    using book_appointment_validation_order [OF n3, of seed_env seed_db 11 1 5 30 None]
    by (simp add: seed_env_def seed_db_def timedelta_days_def)
qed

text \<open>
  C5 as stated puts the existence checks first. For a patient that does not exist and a
  start in the past the code answers "Cannot book in the past", not a not-found error.
\<close>

theorem book_appointment_order_counterexample:
  "find (\<lambda>p. pat_id p = 99) (patients seed_db) = None \<and>
   1773097200000000 \<le> clock_booking seed_env \<and>
   book_appointment seed_env seed_db 99 1 1 (DtDatetime 1773097200000000 None) 30 None =
     (seed_db, BookingFailure ''Cannot book in the past'')"
  by (simp add: book_appointment_def seed_env_def seed_db_def)

text \<open>Booking doctor 1 again at the start of the stored appointment 1.\<close>

theorem book_appointment_integrity_error_witness:
  "passes_validation seed_env booked_db 11 1 1 (DtDatetime 1773658800000000 None)
     1773658800000000 \<lparr>pat_id = 11, date_of_birth = None\<rparr>
     \<lparr>doc_id = 1, consultation_duration = Some 30\<rparr> \<and>
   \<not> storage_fault seed_env \<and>
   violates_uix_doctor_datetime booked_db 1 1773658800000000 \<and>
   book_appointment seed_env booked_db 11 1 1 (DtDatetime 1773658800000000 None) 30 None =
     (booked_db, BookingFailure ''Slot already booked'')"
proof -
  have v: "passes_validation seed_env booked_db 11 1 1 (DtDatetime 1773658800000000 None)
     1773658800000000 \<lparr>pat_id = 11, date_of_birth = None\<rparr>
     \<lparr>doc_id = 1, consultation_duration = Some 30\<rparr>"
    by (simp add: passes_validation_def seed_env_def booked_db_def seed_db_def
          timedelta_days_def)
  have f: "\<not> storage_fault seed_env"
    by (simp add: seed_env_def)
  have u: "violates_uix_doctor_datetime booked_db 1 1773658800000000"
    by (simp add: violates_uix_doctor_datetime_def booked_db_def scheduled_appt_def)
  from book_appointment_integrity_error [OF v f u, of 30 None] v f u
  show ?thesis by (intro conjI) simp_all
qed

text \<open>
  C4. Doctor 1 has one window, on Mondays. A booking for Tuesday 2026-03-17 at 11:00,
  a weekday with no enabled window of that doctor, succeeds and stores the appointment.
\<close>

theorem book_outside_availability_succeeds:
  "doctor_availability seed_db = [monday_window] \<and>
   weekday (1773745200000000 div 86400000000) = 1 \<and>
   spec_enabled_windows seed_db 1 (1773745200000000 div 86400000000) = [] \<and>
   book_appointment seed_env seed_db 11 1 1 (DtDatetime 1773745200000000 None) 30 None =
     (seed_db\<lparr>appointments := [new_appointment 1 11 1 1 1773745200000000 30 (1/10) None]\<rparr>,
      BookingSuccess 1 (1/10))"
proof -
  have v: "passes_validation seed_env seed_db 11 1 1 (DtDatetime 1773745200000000 None)
     1773745200000000 \<lparr>pat_id = 11, date_of_birth = None\<rparr>
     \<lparr>doc_id = 1, consultation_duration = Some 30\<rparr>"
    by (simp add: passes_validation_def seed_env_def seed_db_def timedelta_days_def)
  have f: "\<not> storage_fault seed_env"
    by (simp add: seed_env_def)
  have u: "\<not> violates_uix_doctor_datetime seed_db 1 1773745200000000"
    by (simp add: violates_uix_doctor_datetime_def seed_db_def)
  have p: "stored_probability seed_env \<lparr>pat_id = 11, date_of_birth = None\<rparr>
      \<lparr>doc_id = 1, consultation_duration = Some 30\<rparr> 1773745200000000 = 1/10"
    by (rule stored_probability_dummy) simp
  have i: "next_appointment_id seed_db = 1" and a: "appointments seed_db = []"
    by (simp_all add: next_appointment_id_def seed_db_def)
  have "book_appointment seed_env seed_db 11 1 1 (DtDatetime 1773745200000000 None) 30 None =
     (seed_db\<lparr>appointments := [new_appointment 1 11 1 1 1773745200000000 30 (1/10) None]\<rparr>,
      BookingSuccess 1 (1/10))"
    using book_appointment_success [OF v f u, of 30 None] by (simp add: p i a)
  moreover have "doctor_availability seed_db = [monday_window]"
    by (simp add: seed_db_def)
  moreover have "weekday (1773745200000000 div 86400000000) = 1"
    by (simp add: weekday_def)
  moreover have "spec_enabled_windows seed_db 1 (1773745200000000 div 86400000000) = []"
    by (simp add: spec_enabled_windows_def seed_db_def monday_window_def weekday_def)
  ultimately show ?thesis by (intro conjI)
qed

text \<open>
  A doctor with a NULL consultation duration: stored with 0.5. A model that raises:
  stored with 0.0.
\<close>

theorem book_appointment_scoring_failure_witness:
  "build_features \<lparr>pat_id = 11, date_of_birth = None\<rparr>
     \<lparr>doc_id = 1, consultation_duration = None\<rparr> 1773658800000000
     (clock_features seed_env) = Inl TypeError \<and>
   book_appointment seed_env null_duration_db 11 1 1 (DtDatetime 1773658800000000 None) 30 None =
     (null_duration_db\<lparr>appointments :=
        [new_appointment 1 11 1 1 1773658800000000 30 (1/2) None]\<rparr>,
      BookingSuccess 1 (1/2)) \<and>
   book_appointment raising_env seed_db 11 1 1 (DtDatetime 1773658800000000 None) 45 None =
     (seed_db\<lparr>appointments := [new_appointment 1 11 1 1 1773658800000000 45 0 None]\<rparr>,
      BookingSuccess 1 0)"
proof -
  let ?patient = "\<lparr>pat_id = 11, date_of_birth = None\<rparr>"
  let ?null = "\<lparr>doc_id = 1, consultation_duration = None\<rparr>"
  let ?doctor = "\<lparr>doc_id = 1, consultation_duration = Some 30\<rparr>"
  have v: "passes_validation seed_env null_duration_db 11 1 1 (DtDatetime 1773658800000000 None)
     1773658800000000 ?patient ?null"
    by (simp add: passes_validation_def seed_env_def null_duration_db_def seed_db_def
          timedelta_days_def)
  have f: "\<not> storage_fault seed_env"
    by (simp add: seed_env_def)
  have u: "\<not> violates_uix_doctor_datetime null_duration_db 1 1773658800000000"
    by (simp add: violates_uix_doctor_datetime_def null_duration_db_def seed_db_def)
  have b: "build_features ?patient ?null 1773658800000000 (clock_features seed_env) =
      Inl TypeError"
    by (rule build_features_null)
  have i: "next_appointment_id null_duration_db = 1"
    and a: "appointments null_duration_db = []"
    by (simp_all add: next_appointment_id_def null_duration_db_def seed_db_def)
  from book_appointment_scoring_failure [OF v f u, of 30 None]
  obtain p where bk: "book_appointment seed_env null_duration_db 11 1 1
        (DtDatetime 1773658800000000 None) 30 None =
      (null_duration_db\<lparr>appointments := appointments null_duration_db @
         [new_appointment (next_appointment_id null_duration_db) 11 1 1 1773658800000000 30
            p None]\<rparr>,
       BookingSuccess (next_appointment_id null_duration_db) p)"
    and d: "(\<exists>e. build_features ?patient ?null 1773658800000000 (clock_features seed_env)
        = Inl e) \<longrightarrow> p = 1/2"
    by blast
  from d b have "p = 1/2" by blast
  with bk have 1: "book_appointment seed_env null_duration_db 11 1 1
      (DtDatetime 1773658800000000 None) 30 None =
     (null_duration_db\<lparr>appointments :=
        [new_appointment 1 11 1 1 1773658800000000 30 (1/2) None]\<rparr>,
      BookingSuccess 1 (1/2))"
    by (simp add: i a)
  have v': "passes_validation raising_env seed_db 11 1 1 (DtDatetime 1773658800000000 None)
     1773658800000000 ?patient ?doctor"
    by (simp add: passes_validation_def raising_env_def seed_env_def seed_db_def
          timedelta_days_def)
  have f': "\<not> storage_fault raising_env"
    by (simp add: raising_env_def seed_env_def)
  have u': "\<not> violates_uix_doctor_datetime seed_db 1 1773658800000000"
    by (simp add: violates_uix_doctor_datetime_def seed_db_def)
  obtain fs where fs: "build_features ?patient ?doctor 1773658800000000
      (clock_features raising_env) = Inr fs"
    using build_features_seed by blast
  have r: "\<exists>e. predict_try (get_predictor (singleton raising_env)
      (model_path_file raising_env)) fs = Inl e"
    using raising_predict_try [OF fs] by blast
  have i': "next_appointment_id seed_db = 1" and a': "appointments seed_db = []"
    by (simp_all add: next_appointment_id_def seed_db_def)
  from book_appointment_scoring_failure [OF v' f' u', of 45 None]
  obtain q where bk': "book_appointment raising_env seed_db 11 1 1
        (DtDatetime 1773658800000000 None) 45 None =
      (seed_db\<lparr>appointments := appointments seed_db @
         [new_appointment (next_appointment_id seed_db) 11 1 1 1773658800000000 45 q None]\<rparr>,
       BookingSuccess (next_appointment_id seed_db) q)"
    and d': "\<forall>fs. build_features ?patient ?doctor 1773658800000000
          (clock_features raising_env) = Inr fs \<and>
        (\<exists>e. predict_try (get_predictor (singleton raising_env)
          (model_path_file raising_env)) fs = Inl e) \<longrightarrow> q = 0"
    by blast
  from d' fs r have "q = 0" by blast
  with bk' have 2: "book_appointment raising_env seed_db 11 1 1
      (DtDatetime 1773658800000000 None) 45 None =
     (seed_db\<lparr>appointments := [new_appointment 1 11 1 1 1773658800000000 45 0 None]\<rparr>,
      BookingSuccess 1 0)"
    by (simp add: i' a')
  from b 1 2 show ?thesis by (intro conjI)
qed

text \<open>
  C8 as stated fails when the wrapped model raises: the loaded model's
  \<open>predict_proba\<close> raises, the booking succeeds and the appointment is stored with
  probability 0.0, not 0.5.
\<close>

theorem book_appointment_model_failure_counterexample:
  "model_score (get_predictor (singleton raising_env) (model_path_file raising_env)) [[0]] =
     Inl OtherException \<and>
   book_appointment raising_env seed_db 11 1 1 (DtDatetime 1773658800000000 None) 30 None =
     (seed_db\<lparr>appointments := [new_appointment 1 11 1 1 1773658800000000 30 0 None]\<rparr>,
      BookingSuccess 1 0)"
proof -
  have v: "passes_validation raising_env seed_db 11 1 1 (DtDatetime 1773658800000000 None)
     1773658800000000 \<lparr>pat_id = 11, date_of_birth = None\<rparr>
     \<lparr>doc_id = 1, consultation_duration = Some 30\<rparr>"
    by (simp add: passes_validation_def raising_env_def seed_env_def seed_db_def
          timedelta_days_def)
  have f: "\<not> storage_fault raising_env"
    by (simp add: raising_env_def seed_env_def)
  have u: "\<not> violates_uix_doctor_datetime seed_db 1 1773658800000000"
    by (simp add: violates_uix_doctor_datetime_def seed_db_def)
  have p: "stored_probability raising_env \<lparr>pat_id = 11, date_of_birth = None\<rparr>
      \<lparr>doc_id = 1, consultation_duration = Some 30\<rparr> 1773658800000000 = 0"
    by (rule stored_probability_raising) simp
  have i: "next_appointment_id seed_db = 1" and a: "appointments seed_db = []"
    by (simp_all add: next_appointment_id_def seed_db_def)
  have "book_appointment raising_env seed_db 11 1 1 (DtDatetime 1773658800000000 None) 30 None =
     (seed_db\<lparr>appointments := [new_appointment 1 11 1 1 1773658800000000 30 0 None]\<rparr>,
      BookingSuccess 1 0)"
    using book_appointment_success [OF v f u, of 30 None] by (simp add: p i a)
  moreover have "model_score (get_predictor (singleton raising_env)
      (model_path_file raising_env)) [[0]] = Inl OtherException"
    by (simp add: model_score_def get_predictor_def load_model_def raising_env_def
          seed_env_def raising_model_def)
  ultimately show ?thesis by (intro conjI)
qed

text \<open>
  A model whose \<open>predict_proba\<close> raises, scored on the empty feature dictionary;
  and a doctor with a NULL consultation duration, for whom \<open>build_features\<close> raises.
\<close>

theorem predict_never_raises_witness:
  "model_score \<lparr>model = Some raising_model\<rparr> [[0, 0, 0, 0, 0, 0, 0]] = Inl OtherException \<and>
   predict \<lparr>model = Some raising_model\<rparr> Map.empty = Inr \<lparr>probability = 0, label = 0\<rparr> \<and>
   (\<exists>x. ml_prediction_try seed_env \<lparr>pat_id = 11, date_of_birth = None\<rparr>
      \<lparr>doc_id = 1, consultation_duration = None\<rparr> 1773658800000000 = Inl x)"
proof -
  let ?self = "\<lparr>model = Some raising_model\<rparr>"
  let ?patient = "\<lparr>pat_id = 11, date_of_birth = None\<rparr>"
  let ?doctor = "\<lparr>doc_id = 1, consultation_duration = None\<rparr>"
  have r: "float_all (map (\<lambda>k. case (Map.empty :: string \<rightharpoonup> pyval) k of
      None \<Rightarrow> PyNum 0 | Some v \<Rightarrow> v) ordered_keys) = Inr [0, 0, 0, 0, 0, 0, 0]"
    by (simp add: ordered_keys_def)
  have m: "model_score ?self [[0, 0, 0, 0, 0, 0, 0]] = Inl OtherException"
    by (simp add: model_score_def raising_model_def)
  have b: "\<exists>x. build_features ?patient ?doctor 1773658800000000 (clock_features seed_env) = Inl x"
    using build_features_null by blast
  note inst = predict_never_raises [of ?self Map.empty "[0, 0, 0, 0, 0, 0, 0]" OtherException
      ?patient ?doctor 1773658800000000 seed_env]
  from inst r m have 1: "predict ?self Map.empty = Inr \<lparr>probability = 0, label = 0\<rparr>"
    by blast
  from inst b have 2: "\<exists>x. ml_prediction_try seed_env ?patient ?doctor 1773658800000000 = Inl x"
    by blast
  from m 1 2 show ?thesis by (intro conjI)
qed

end
